theory Spec2Isabelle
  imports Complex_Main "HOL-Library.AList"
begin

section \<open>JavaScript values\<close>

text \<open>
  The library (\<^verbatim>\<open>src/index.js\<close>) is JavaScript, so its documents are dynamically typed
  values. A number is an IEEE double: \<open>Fin r\<close> is the finite double whose exact value is
  \<open>r\<close> (\<open>Fin 0\<close> is \<open>+0\<close>), and \<open>NaN\<close>, the two infinities and \<open>-0\<close> are values of their
  own. A \<open>Date\<close> holds its time value, an integral number of milliseconds, or nothing when
  it is an invalid date. An object is the list of its own enumerable properties in
  enumeration order (the order of \<^verbatim>\<open>for (prop in obj)\<close>), with distinct keys. Function
  values inside documents are not modelled.
\<close>

datatype jsnum = NaN | PosInf | NegInf | NegZero | Fin rat

datatype jsval =
    Undefined
  | Null
  | Bool bool
  | Num jsnum
  | Str string
  | Symbol string
  | BigInt int
  | DateV "int option"
  | Obj "(string \<times> jsval) list"
  | Arr "jsval list"

type_synonym props = "(string \<times> jsval) list"

text \<open>
  Everything the code can throw. The three messages of \<^verbatim>\<open>define\<close>, \<^verbatim>\<open>insert\<close> and
  \<^verbatim>\<open>update\<close> carry the names they interpolate; \<open>TypeError\<close> is the engine's own error
  (calling \<^verbatim>\<open>undefined\<close>, reading a property of \<^verbatim>\<open>null\<close>, serialising a BigInt);
  \<open>Thrown v\<close> is whatever a caller-supplied function or the store throws.
\<close>

datatype error =
    Redefinition string
  | ReservedProperty string
  | NotNullConstraint string string
  | TypeError
  | Thrown jsval

definition js_truthy :: "jsval \<Rightarrow> bool" where
  "js_truthy v =
     (case v of
        Undefined \<Rightarrow> False
      | Null \<Rightarrow> False
      | Bool b \<Rightarrow> b
      | Num n \<Rightarrow> n \<noteq> NaN \<and> n \<noteq> NegZero \<and> n \<noteq> Fin 0
      | Str s \<Rightarrow> s \<noteq> []
      | BigInt i \<Rightarrow> i \<noteq> 0
      | _ \<Rightarrow> True)"

text \<open>\<^verbatim>\<open>v == null\<close>: true of \<^verbatim>\<open>null\<close> and \<^verbatim>\<open>undefined\<close> only.\<close>

definition nullish :: "jsval \<Rightarrow> bool" where
  "nullish v = (v = Null \<or> v = Undefined)"

subsection \<open>Property lookup on plain objects\<close>

text \<open>
  \<^verbatim>\<open>this.models\<close>, \<^verbatim>\<open>_scheme\<close>, \<^verbatim>\<open>_defaultObject\<close>, \<^verbatim>\<open>toInsert\<close> and \<^verbatim>\<open>toUpdate\<close> are
  plain objects (\<^verbatim>\<open>{}\<close>, or the result of \<^verbatim>\<open>JSON.parse\<close>), so \<^verbatim>\<open>obj[key]\<close> on them finds
  an own property first and the members of \<^verbatim>\<open>Object.prototype\<close> otherwise. All of those
  members are functions or objects: truthy, not \<^verbatim>\<open>null\<close>, and without a \<^verbatim>\<open>parse\<close>,
  \<^verbatim>\<open>notNull\<close> or \<^verbatim>\<open>_collection\<close> property.
\<close>

definition object_prototype_names :: "string list" where
  "object_prototype_names =
     [''constructor'', ''hasOwnProperty'', ''isPrototypeOf'', ''propertyIsEnumerable'',
      ''toLocaleString'', ''toString'', ''valueOf'', ''__proto__'',
      ''__defineGetter__'', ''__defineSetter__'', ''__lookupGetter__'', ''__lookupSetter__'']"

datatype 'a lookup = Own 'a | Inherited | Absent

definition js_get :: "(string \<times> 'a) list \<Rightarrow> string \<Rightarrow> 'a lookup" where
  "js_get ps k =
     (case map_of ps k of
        Some v \<Rightarrow> Own v
      | None \<Rightarrow> if k \<in> set object_prototype_names then Inherited else Absent)"

text \<open>
  \<^verbatim>\<open>obj[key] = v\<close> replaces the value of an own property in place and appends a new
  one. (A new key that is an array index is enumerated before the keys that are not; the
  model appends it all the same, which changes the order of the keys of a stored document
  and nothing else.) Assigning to \<^verbatim>\<open>__proto__\<close> runs the inherited setter instead: no
  own property is created. (The setter replaces the prototype when \<open>v\<close> is an object; the
  model keeps \<^verbatim>\<open>Object.prototype\<close>, so objects with an own \<^verbatim>\<open>__proto__\<close> key are at the
  edge of what it describes.)
\<close>

definition js_set :: "(string \<times> 'a) list \<Rightarrow> string \<Rightarrow> 'a \<Rightarrow> (string \<times> 'a) list" where
  "js_set ps k v = (if k = ''__proto__'' then ps else AList.update k v ps)"

text \<open>\<^verbatim>\<open>obj[key] == null\<close> for a plain object \<open>obj\<close>.\<close>

definition nullish_at :: "props \<Rightarrow> string \<Rightarrow> bool" where
  "nullish_at ps k = (case js_get ps k of Own v \<Rightarrow> nullish v | Inherited \<Rightarrow> False | Absent \<Rightarrow> True)"

subsection \<open>Enumerating a document\<close>

fun show_nat :: "nat \<Rightarrow> string" where
  "show_nat n =
     (if n < 10 then [''0123456789'' ! n]
      else show_nat (n div 10) @ [''0123456789'' ! (n mod 10)])"

text \<open>
  The pairs \<^verbatim>\<open>(prop, obj[prop])\<close> that \<^verbatim>\<open>for (let prop in obj)\<close> visits: the own
  properties of an object, the indices of an array or a string, and nothing for any other
  value (\<^verbatim>\<open>null\<close> and \<^verbatim>\<open>undefined\<close> included: the loop body is skipped).
\<close>

definition own_props :: "jsval \<Rightarrow> props" where
  "own_props v =
     (case v of
        Obj ps \<Rightarrow> ps
      | Arr xs \<Rightarrow> zip (map show_nat [0..<length xs]) xs
      | Str s \<Rightarrow> zip (map show_nat [0..<length s]) (map (\<lambda>c. Str [c]) s)
      | _ \<Rightarrow> [])"

subsection \<open>\<^verbatim>\<open>JSON.parse(JSON.stringify(v))\<close>\<close>

definition pad :: "nat \<Rightarrow> nat \<Rightarrow> string" where
  "pad w n = replicate (w - length (show_nat n)) (CHR ''0'') @ show_nat n"

text \<open>\<^verbatim>\<open>Date.prototype.toISOString\<close> of a valid time value (proleptic Gregorian calendar, UTC).\<close>

definition toISOString :: "int \<Rightarrow> string" where
  "toISOString t =
     (let day = t div 86400000;
          ms = nat (t mod 86400000);
          z = day + 719468;
          era = z div 146097;
          doe = z - era * 146097;
          yoe = (doe - doe div 1460 + doe div 36524 - doe div 146096) div 365;
          doy = doe - (365 * yoe + yoe div 4 - yoe div 100);
          mp = (5 * doy + 2) div 153;
          d = doy - (153 * mp + 2) div 5 + 1;
          m = (if mp < 10 then mp + 3 else mp - 9);
          y = yoe + era * 400 + (if m \<le> 2 then 1 else 0)
      in (if 0 \<le> y \<and> y \<le> 9999 then pad 4 (nat y)
          else (if y < 0 then ''-'' else ''+'') @ pad 6 (nat \<bar>y\<bar>))
         @ ''-'' @ pad 2 (nat m) @ ''-'' @ pad 2 (nat d)
         @ ''T'' @ pad 2 (ms div 3600000) @ '':'' @ pad 2 (ms div 60000 mod 60)
         @ '':'' @ pad 2 (ms div 1000 mod 60) @ ''.'' @ pad 3 (ms mod 1000) @ ''Z'')"

text \<open>
  The deep copy of line 119. \<open>json_value v\<close> is what a property holding \<open>v\<close> becomes:
  \<open>None\<close> when \<^verbatim>\<open>JSON.stringify\<close> leaves the property out (\<^verbatim>\<open>undefined\<close>, a symbol);
  inside an array such an element becomes \<^verbatim>\<open>null\<close>. Numbers that are not finite become
  \<^verbatim>\<open>null\<close>, \<open>-0\<close> is written \<^verbatim>\<open>0\<close>, a date becomes its ISO string (\<^verbatim>\<open>null\<close> when
  invalid), and a BigInt makes \<^verbatim>\<open>JSON.stringify\<close> throw a TypeError.
\<close>

fun json_value :: "jsval \<Rightarrow> error + jsval option"
  and json_props :: "props \<Rightarrow> error + props"
  and json_elems :: "jsval list \<Rightarrow> error + jsval list" where
  "json_value Undefined = Inr None"
| "json_value (Symbol d) = Inr None"
| "json_value Null = Inr (Some Null)"
| "json_value (Bool b) = Inr (Some (Bool b))"
| "json_value (Num n) =
     Inr (Some (case n of Fin r \<Rightarrow> Num (Fin r) | NegZero \<Rightarrow> Num (Fin 0) | _ \<Rightarrow> Null))"
| "json_value (Str s) = Inr (Some (Str s))"
| "json_value (BigInt i) = Inl TypeError"
| "json_value (DateV t) =
     Inr (Some (case t of None \<Rightarrow> Null | Some ms \<Rightarrow> Str (toISOString ms)))"
| "json_value (Obj ps) =
     (case json_props ps of Inl e \<Rightarrow> Inl e | Inr ps' \<Rightarrow> Inr (Some (Obj ps')))"
| "json_value (Arr xs) =
     (case json_elems xs of Inl e \<Rightarrow> Inl e | Inr xs' \<Rightarrow> Inr (Some (Arr xs')))"
| "json_props [] = Inr []"
| "json_props ((k, v) # ps) =
     (case json_value v of
        Inl e \<Rightarrow> Inl e
      | Inr None \<Rightarrow> json_props ps
      | Inr (Some v') \<Rightarrow>
          (case json_props ps of Inl e \<Rightarrow> Inl e | Inr ps' \<Rightarrow> Inr ((k, v') # ps')))"
| "json_elems [] = Inr []"
| "json_elems (x # xs) =
     (case json_value x of
        Inl e \<Rightarrow> Inl e
      | Inr None \<Rightarrow>
          (case json_elems xs of Inl e \<Rightarrow> Inl e | Inr xs' \<Rightarrow> Inr (Null # xs'))
      | Inr (Some v') \<Rightarrow>
          (case json_elems xs of Inl e \<Rightarrow> Inl e | Inr xs' \<Rightarrow> Inr (v' # xs')))"

section \<open>Models, the registry and the store\<close>

text \<open>
  A compiled property rule (\<^verbatim>\<open>_scheme[prop]\<close>): the coercion function, which may throw,
  and the not-null flag.
\<close>

type_synonym parsefn = "jsval \<Rightarrow> error + jsval"

record rule =
  parse :: parsefn
  notNull :: bool

text \<open>
  A registry entry (\<^verbatim>\<open>this.models[name]\<close>, lines 73-79). \<open>m_collection\<close> is the
  collection handle, \<open>None\<close> for \<^verbatim>\<open>null\<close>: the store finds a collection by its name, so
  the handle is that name. \<open>m_nonStrict\<close> holds \<^verbatim>\<open>options.allowExtraProperties\<close> as it was
  given; the code only tests its truthiness.
\<close>

record model =
  m_collection :: "string option"
  m_unique :: "string list"
  m_scheme :: "(string \<times> rule) list"
  m_defaultObject :: props
  m_nonStrict :: jsval

text \<open>
  A property declaration is a coercion function or a specification object
  (\<^verbatim>\<open>@param {(object|function)} definition.prop\<close>). In the object, \<open>type_fn\<close> is the
  \<^verbatim>\<open>type\<close> function when one is given, and the other three fields hold the value given,
  \<open>Undefined\<close> when the field is absent.
\<close>

record propspec =
  type_fn :: "parsefn option"
  allowNull :: jsval
  defaultValue :: jsval
  unique :: jsval

datatype decl = TypeFunction parsefn | SpecObject propspec

text \<open>
  The third argument of \<^verbatim>\<open>define\<close>: nothing (or any falsy value), the boolean
  \<^verbatim>\<open>true\<close>, or a collection configuration object.
\<close>

datatype options = NoOptions | OptionsTrue | OptionsObject props

text \<open>
  The store (LokiJS) is not part of the repository. Its state for one collection is a
  value of the type \<open>'c\<close>, and its three entry points that the code calls are parameters:
  \<^verbatim>\<open>addCollection\<close>, and the \<^verbatim>\<open>insert\<close> and \<^verbatim>\<open>update\<close> methods a collection has before
  \<^verbatim>\<open>define\<close> replaces them (kept as \<^verbatim>\<open>_insert\<close> and \<^verbatim>\<open>_update\<close>, lines 108-109). Each
  may throw, and a write returns its result with the collection's new state.
  \<open>insert_primitive\<close> is Loki's \<^verbatim>\<open>insert\<close>, which the code calls with an array only and
  which writes the elements itself. \<open>update_primitive\<close> is Loki's \<^verbatim>\<open>update\<close> of one
  document; what Loki's \<^verbatim>\<open>update\<close> does with an array is written out below, at the
  closure that calls it.
\<close>

record 'c store =
  addCollection :: "string \<Rightarrow> props \<Rightarrow> error + 'c"
  insert_primitive :: "jsval \<Rightarrow> 'c \<Rightarrow> (error + jsval) \<times> 'c"
  update_primitive :: "jsval \<Rightarrow> 'c \<Rightarrow> (error + jsval) \<times> 'c"

text \<open>
  A collection of the database: the store's state, the \<^verbatim>\<open>uniqueNames\<close> field that
  \<^verbatim>\<open>define\<close> overwrites (line 106), and whether its \<^verbatim>\<open>insert\<close> and \<^verbatim>\<open>update\<close> are the
  intercepting closures of lines 115 and 143.
\<close>

record 'c collection =
  contents :: 'c
  uniqueNames :: "string list"
  intercepted :: bool

record 'c jotnar =
  models :: "(string \<times> model) list"
  collections :: "(string \<times> 'c collection) list"

text \<open>The constructor (lines 18-21) on a database without collections.\<close>

definition new_jotnar :: "'c jotnar" where
  "new_jotnar = \<lparr>models = [], collections = []\<rparr>"

section \<open>\<^verbatim>\<open>define\<close>\<close>

text \<open>Lines 67-68: the options object the rest of \<^verbatim>\<open>define\<close> works with.\<close>

definition options_object :: "options \<Rightarrow> props" where
  "options_object options =
     (case options of
        NoOptions \<Rightarrow> []
      | OptionsTrue \<Rightarrow> [(''allowExtraProperties'', Bool True)]
      | OptionsObject ps \<Rightarrow> ps)"

text \<open>Reading a data property: \<^verbatim>\<open>undefined\<close> when the object has none of that name.\<close>

definition js_read :: "props \<Rightarrow> string \<Rightarrow> jsval" where
  "js_read ps k = (case map_of ps k of Some v \<Rightarrow> v | None \<Rightarrow> Undefined)"

text \<open>\<^verbatim>\<open>_types.ANY\<close> (line 4).\<close>

definition ANY :: parsefn where
  "ANY v = Inr v"

text \<open>One iteration of the loop of lines 84-99, on the entry being built.\<close>

definition define_prop :: "string \<Rightarrow> decl \<Rightarrow> model \<Rightarrow> model" where
  "define_prop prop d m =
     (case d of
        SpecObject s \<Rightarrow>
          m\<lparr>m_unique := (if js_truthy (unique s) then m_unique m @ [prop] else m_unique m),
            m_scheme := js_set (m_scheme m) prop
              \<lparr>parse = (case type_fn s of Some f \<Rightarrow> f | None \<Rightarrow> ANY),
               notNull = (allowNull s = Bool False)\<rparr>,
            m_defaultObject := js_set (m_defaultObject m) prop
              (if defaultValue s = Undefined then Null else defaultValue s)\<rparr>
      | TypeFunction f \<Rightarrow>
          m\<lparr>m_scheme := js_set (m_scheme m) prop \<lparr>parse = f, notNull = False\<rparr>,
            m_defaultObject := js_set (m_defaultObject m) prop Null\<rparr>)"

fun define_props :: "(string \<times> decl) list \<Rightarrow> model \<Rightarrow> model" where
  "define_props [] m = m"
| "define_props ((prop, d) # ds) m = define_props ds (define_prop prop d m)"

text \<open>
  \<^verbatim>\<open>define\<close> (lines 64-171). The result is the error thrown or the collection handle
  returned, with the state the call leaves behind: \<open>st0\<close> after line 79, \<open>st1\<close> after the
  loop of lines 84-99. Every declared value is a function or an object, so
  \<^verbatim>\<open>definition.meta\<close> is truthy exactly when the declaration has that key. A collection
  that \<^verbatim>\<open>getCollection\<close> finds (line 101) was made by the store itself, so the methods
  saved at lines 108-109 are the store's primitives, as they are for a new collection.
\<close>

definition define_model ::
  "'c store \<Rightarrow> 'c jotnar \<Rightarrow> string \<Rightarrow> (string \<times> decl) list \<Rightarrow> options
     \<Rightarrow> (error + string) \<times> 'c jotnar" where
  "define_model lk st name definition options =
     (let opts = options_object options in
      case js_get (models st) name of
        Own m \<Rightarrow> (Inl (Redefinition name), st)
      | Inherited \<Rightarrow> (Inl (Redefinition name), st)
      | Absent \<Rightarrow>
        let m0 = \<lparr>m_collection = None, m_unique = [], m_scheme = [], m_defaultObject = [],
                  m_nonStrict = js_read opts ''allowExtraProperties''\<rparr>;
            st0 = st\<lparr>models := js_set (models st) name m0\<rparr>
        in
        if map_of definition ''meta'' \<noteq> None then (Inl (ReservedProperty ''meta''), st0)
        else if map_of definition ''$loki'' \<noteq> None then (Inl (ReservedProperty ''$loki''), st0)
        else
          let m1 = define_props definition m0;
              st1 = st\<lparr>models := js_set (models st) name m1\<rparr>
          in
          (case map_of (collections st) name of
             Some c \<Rightarrow>
               (Inr name,
                st\<lparr>models := js_set (models st) name (m1\<lparr>m_collection := Some name\<rparr>),
                   collections := AList.update name
                     (c\<lparr>uniqueNames := m_unique m1, intercepted := True\<rparr>) (collections st)\<rparr>)
           | None \<Rightarrow>
               (case addCollection lk name
                       (AList.update ''unique'' (Arr (map Str (m_unique m1))) opts) of
                  Inl e \<Rightarrow> (Inl e, st1)
                | Inr c \<Rightarrow>
                    (Inr name,
                     st\<lparr>models := js_set (models st) name (m1\<lparr>m_collection := Some name\<rparr>),
                        collections := collections st @
                          [(name, \<lparr>contents = c, uniqueNames = m_unique m1,
                                   intercepted = True\<rparr>)]\<rparr>))))"

text \<open>\<^verbatim>\<open>getModel\<close> (lines 177-179): a handle, \<^verbatim>\<open>null\<close>, or \<^verbatim>\<open>undefined\<close>.\<close>

datatype handle = Handle string | NullHandle | UndefinedHandle

definition getModel :: "'c jotnar \<Rightarrow> string \<Rightarrow> handle" where
  "getModel st name =
     (case js_get (models st) name of
        Own m \<Rightarrow> (case m_collection m of Some h \<Rightarrow> Handle h | None \<Rightarrow> NullHandle)
      | Inherited \<Rightarrow> UndefinedHandle
      | Absent \<Rightarrow> NullHandle)"

section \<open>The intercepted \<^verbatim>\<open>insert\<close> and \<^verbatim>\<open>update\<close>\<close>

text \<open>
  Calling the saved primitive \<^verbatim>\<open>self.models[name]._collection._insert(arg)\<close> (or
  \<^verbatim>\<open>_update\<close>): a TypeError when the handle is \<^verbatim>\<open>null\<close>; otherwise the store's
  primitive runs on the collection and its new state is kept, also when it throws.
\<close>

definition call_primitive ::
  "(jsval \<Rightarrow> 'c \<Rightarrow> (error + jsval) \<times> 'c) \<Rightarrow> 'c jotnar \<Rightarrow> model \<Rightarrow> jsval
     \<Rightarrow> (error + jsval) \<times> 'c jotnar" where
  "call_primitive prim st m arg =
     (case m_collection m of
        None \<Rightarrow> (Inl TypeError, st)
      | Some h \<Rightarrow>
          (case map_of (collections st) h of
             None \<Rightarrow> (Inl TypeError, st)
           | Some c \<Rightarrow>
               (case prim arg (contents c) of
                  (r, c') \<Rightarrow>
                    (r, st\<lparr>collections :=
                          AList.update h (c\<lparr>contents := c'\<rparr>) (collections st)\<rparr>))))"

text \<open>
  The loop of lines 120-126 over the pairs of the raw document, on the object
  \<open>toInsert\<close> built so far. A key found in \<^verbatim>\<open>_scheme\<close> only through the prototype is
  truthy and has no \<^verbatim>\<open>parse\<close>: calling it is a TypeError.
\<close>

fun insert_props :: "model \<Rightarrow> props \<Rightarrow> props \<Rightarrow> error + props" where
  "insert_props m [] toInsert = Inr toInsert"
| "insert_props m ((prop, v) # ps) toInsert =
     (case js_get (m_scheme m) prop of
        Own r \<Rightarrow>
          (case parse r v of
             Inl e \<Rightarrow> Inl e
           | Inr v' \<Rightarrow> insert_props m ps (js_set toInsert prop v'))
      | Inherited \<Rightarrow> Inl TypeError
      | Absent \<Rightarrow>
          if js_truthy (m_nonStrict m) then insert_props m ps (js_set toInsert prop v)
          else insert_props m ps toInsert)"

text \<open>
  The loop of lines 127-132 over the keys of \<^verbatim>\<open>_defaultObject\<close>. The right operand of
  \<^verbatim>\<open>&&\<close> is evaluated only when the left one holds; there \<^verbatim>\<open>_scheme[prop].notNull\<close> is
  a TypeError when \<^verbatim>\<open>_scheme[prop]\<close> is \<^verbatim>\<open>undefined\<close>.
\<close>

fun insert_check :: "model \<Rightarrow> string \<Rightarrow> props \<Rightarrow> string list \<Rightarrow> error + unit" where
  "insert_check m name toInsert [] = Inr ()"
| "insert_check m name toInsert (prop # ps) =
     (if nullish_at toInsert prop then
        (case js_get (m_scheme m) prop of
           Own r \<Rightarrow>
             if notNull r then Inl (NotNullConstraint prop name)
             else insert_check m name toInsert ps
         | Inherited \<Rightarrow> insert_check m name toInsert ps
         | Absent \<Rightarrow> Inl TypeError)
      else insert_check m name toInsert ps)"

text \<open>The body of the loop of line 118 for one raw document: lines 119-132.\<close>

definition insert_doc :: "model \<Rightarrow> string \<Rightarrow> jsval \<Rightarrow> error + props" where
  "insert_doc m name obj =
     (case json_props (m_defaultObject m) of
        Inl e \<Rightarrow> Inl e
      | Inr template \<Rightarrow>
          (case insert_props m (own_props obj) template of
             Inl e \<Rightarrow> Inl e
           | Inr toInsert \<Rightarrow>
               (case insert_check m name toInsert (map fst (m_defaultObject m)) of
                  Inl e \<Rightarrow> Inl e
                | Inr u \<Rightarrow> Inr toInsert)))"

text \<open>The loop of line 118, with \<open>listToInsert\<close> as accumulator.\<close>

fun insert_loop :: "model \<Rightarrow> string \<Rightarrow> jsval list \<Rightarrow> props list \<Rightarrow> error + props list" where
  "insert_loop m name [] listToInsert = Inr listToInsert"
| "insert_loop m name (obj # objs) listToInsert =
     (case insert_doc m name obj of
        Inl e \<Rightarrow> Inl e
      | Inr toInsert \<Rightarrow> insert_loop m name objs (listToInsert @ [toInsert]))"

text \<open>Line 116: \<^verbatim>\<open>Array.isArray(object) ? object : [object]\<close>.\<close>

definition as_array :: "jsval \<Rightarrow> jsval list" where
  "as_array object = (case object of Arr xs \<Rightarrow> xs | _ \<Rightarrow> [object])"

text \<open>
  The closure \<^verbatim>\<open>insert\<close> of lines 115-136, bound to the model name. It reads
  \<^verbatim>\<open>self.models[name]\<close> when it is called.
\<close>

definition insert_intercepted ::
  "'c store \<Rightarrow> 'c jotnar \<Rightarrow> string \<Rightarrow> jsval \<Rightarrow> (error + jsval) \<times> 'c jotnar" where
  "insert_intercepted lk st name object =
     (case js_get (models st) name of
        Own m \<Rightarrow>
          (case insert_loop m name (as_array object) [] of
             Inl e \<Rightarrow> (Inl e, st)
           | Inr listToInsert \<Rightarrow>
               call_primitive (insert_primitive lk) st m (Arr (map Obj listToInsert)))
      | _ \<Rightarrow> (Inl TypeError, st))"

text \<open>The loops of lines 149-155 and 156-161, as \<^verbatim>\<open>update\<close> writes them.\<close>

fun update_props :: "model \<Rightarrow> props \<Rightarrow> props \<Rightarrow> error + props" where
  "update_props m [] toUpdate = Inr toUpdate"
| "update_props m ((prop, v) # ps) toUpdate =
     (case js_get (m_scheme m) prop of
        Own r \<Rightarrow>
          (case parse r v of
             Inl e \<Rightarrow> Inl e
           | Inr v' \<Rightarrow> update_props m ps (js_set toUpdate prop v'))
      | Inherited \<Rightarrow> Inl TypeError
      | Absent \<Rightarrow>
          if js_truthy (m_nonStrict m) then update_props m ps (js_set toUpdate prop v)
          else update_props m ps toUpdate)"

fun update_check :: "model \<Rightarrow> string \<Rightarrow> props \<Rightarrow> string list \<Rightarrow> error + unit" where
  "update_check m name toUpdate [] = Inr ()"
| "update_check m name toUpdate (prop # ps) =
     (if nullish_at toUpdate prop then
        (case js_get (m_scheme m) prop of
           Own r \<Rightarrow>
             if notNull r then Inl (NotNullConstraint prop name)
             else update_check m name toUpdate ps
         | Inherited \<Rightarrow> update_check m name toUpdate ps
         | Absent \<Rightarrow> Inl TypeError)
      else update_check m name toUpdate ps)"

text \<open>
  Lines 148-161: the document \<^verbatim>\<open>update\<close> has built when it reaches line 162, before
  \<^verbatim>\<open>meta\<close> and \<^verbatim>\<open>$loki\<close> are attached. It starts from the empty object.
\<close>

definition update_doc :: "model \<Rightarrow> string \<Rightarrow> jsval \<Rightarrow> error + props" where
  "update_doc m name object =
     (case update_props m (own_props object) [] of
        Inl e \<Rightarrow> Inl e
      | Inr toUpdate \<Rightarrow>
          (case update_check m name toUpdate (map fst (m_defaultObject m)) of
             Inl e \<Rightarrow> Inl e
           | Inr u \<Rightarrow> Inr toUpdate))"

text \<open>
  \<^verbatim>\<open>object.meta\<close> and \<^verbatim>\<open>object.$loki\<close> (lines 162-163): a TypeError on \<^verbatim>\<open>null\<close> and
  \<^verbatim>\<open>undefined\<close>, the own property of an object, and \<^verbatim>\<open>undefined\<close> otherwise.
\<close>

definition reserved_field :: "jsval \<Rightarrow> string \<Rightarrow> error + jsval" where
  "reserved_field object k =
     (case object of
        Undefined \<Rightarrow> Inl TypeError
      | Null \<Rightarrow> Inl TypeError
      | Obj ps \<Rightarrow> Inr (js_read ps k)
      | _ \<Rightarrow> Inr Undefined)"

text \<open>
  Lines 148-165 of the closure \<^verbatim>\<open>update\<close>, which run when the argument is not an array.
  The object built there is a plain object, so Loki's \<^verbatim>\<open>update\<close>, called with it at line
  165, writes that one document: the primitive \<open>update_primitive\<close>.
\<close>

definition update_single ::
  "'c store \<Rightarrow> 'c jotnar \<Rightarrow> string \<Rightarrow> jsval \<Rightarrow> (error + jsval) \<times> 'c jotnar" where
  "update_single lk st name object =
     (case js_get (models st) name of
        Own m \<Rightarrow>
          (case update_doc m name object of
             Inl e \<Rightarrow> (Inl e, st)
           | Inr toUpdate \<Rightarrow>
               (case reserved_field object ''meta'' of
                  Inl e \<Rightarrow> (Inl e, st)
                | Inr meta \<Rightarrow>
                    (case reserved_field object ''$loki'' of
                       Inl e \<Rightarrow> (Inl e, st)
                     | Inr loki \<Rightarrow>
                         call_primitive (update_primitive lk) st m
                           (Obj (js_set (js_set toUpdate ''meta'' meta) ''$loki'' loki)))))
      | _ \<Rightarrow> (Inl TypeError, st))"

text \<open>
  The closure \<^verbatim>\<open>update\<close> of lines 143-166. Given an array it calls the saved \<^verbatim>\<open>_update\<close>
  with it (line 145), as a method of the collection. That function is Loki's
  \<^verbatim>\<open>Collection.prototype.update\<close>, which for an array runs
  \<^verbatim>\<open>for (k = 0; k < len; k += 1) { this.update(doc[k]); }\<close> and returns \<^verbatim>\<open>undefined\<close>. Since
  line 167 the \<^verbatim>\<open>update\<close> of the collection is this closure, so every element comes back
  to it: \<open>loki_update_each\<close> is that loop. An element that throws ends the loop, with the
  elements before it written.
\<close>

fun update_intercepted ::
    "'c store \<Rightarrow> 'c jotnar \<Rightarrow> string \<Rightarrow> jsval \<Rightarrow> (error + jsval) \<times> 'c jotnar"
  and loki_update_each ::
    "'c store \<Rightarrow> 'c jotnar \<Rightarrow> string \<Rightarrow> jsval list \<Rightarrow> (error + jsval) \<times> 'c jotnar" where
  "update_intercepted lk st name (Arr docs) =
     (case js_get (models st) name of
        Own m \<Rightarrow>
          (case m_collection m of
             None \<Rightarrow> (Inl TypeError, st)
           | Some h \<Rightarrow>
               (case map_of (collections st) h of
                  None \<Rightarrow> (Inl TypeError, st)
                | Some c \<Rightarrow> loki_update_each lk st name docs))
      | _ \<Rightarrow> (Inl TypeError, st))"
| "update_intercepted lk st name object = update_single lk st name object"
| "loki_update_each lk st name [] = (Inr Undefined, st)"
| "loki_update_each lk st name (doc # docs) =
     (case update_intercepted lk st name doc of
        (Inl e, st') \<Rightarrow> (Inl e, st')
      | (Inr r, st') \<Rightarrow> loki_update_each lk st' name docs)"

section \<open>The built-in coercions \<^verbatim>\<open>_types\<close>\<close>

text \<open>
  Lines 3-10 call the language's own conversions. Those that depend on the digits of an
  IEEE double or on the local time zone are parameters here:
  \<^item> \<open>string_to_number\<close>: \<^verbatim>\<open>Number(s)\<close> of a string;
  \<^item> \<open>bigint_to_number\<close>: \<^verbatim>\<open>Number(b)\<close> of a BigInt;
  \<^item> \<open>number_to_string\<close>: the string of a number;
  \<^item> \<open>exponent_digit\<close>: the first digit of a finite number other than zero when it is
    printed in exponential notation (\<^verbatim>\<open>6.02e+23\<close>, \<^verbatim>\<open>5e-7\<close>), which is never \<^verbatim>\<open>0\<close>;
  \<^item> \<open>date_to_string\<close>, \<open>date_parse\<close>: \<^verbatim>\<open>Date.prototype.toString\<close> and \<^verbatim>\<open>Date.parse\<close>.
\<close>

datatype digit = D1 | D2 | D3 | D4 | D5 | D6 | D7 | D8 | D9

fun digit_value :: "digit \<Rightarrow> rat" where
  "digit_value D1 = 1"
| "digit_value D2 = 2"
| "digit_value D3 = 3"
| "digit_value D4 = 4"
| "digit_value D5 = 5"
| "digit_value D6 = 6"
| "digit_value D7 = 7"
| "digit_value D8 = 8"
| "digit_value D9 = 9"

record builtins =
  string_to_number :: "string \<Rightarrow> jsnum"
  bigint_to_number :: "int \<Rightarrow> jsnum"
  number_to_string :: "jsnum \<Rightarrow> string"
  exponent_digit :: "rat \<Rightarrow> digit"
  date_to_string :: "int option \<Rightarrow> string"
  date_parse :: "string \<Rightarrow> int option"

definition show_int :: "int \<Rightarrow> string" where
  "show_int i = (if i < 0 then ''-'' @ show_nat (nat (- i)) else show_nat (nat i))"

text \<open>
  The conversion of a value to a string (the language's \<open>ToString\<close>), which throws on a
  symbol. A document object has no methods of its own: it prints as
  \<^verbatim>\<open>[object Object]\<close> through the inherited \<^verbatim>\<open>toString\<close>, unless an own property of
  that name, which is not a function, hides it. An array joins its elements with commas,
  \<^verbatim>\<open>null\<close> and \<^verbatim>\<open>undefined\<close> as the empty string.
\<close>

fun to_string :: "builtins \<Rightarrow> jsval \<Rightarrow> error + string"
  and join :: "builtins \<Rightarrow> jsval list \<Rightarrow> error + string" where
  "to_string bi Undefined = Inr ''undefined''"
| "to_string bi Null = Inr ''null''"
| "to_string bi (Bool b) = Inr (if b then ''true'' else ''false'')"
| "to_string bi (Num n) = Inr (number_to_string bi n)"
| "to_string bi (Str s) = Inr s"
| "to_string bi (Symbol d) = Inl TypeError"
| "to_string bi (BigInt i) = Inr (show_int i)"
| "to_string bi (DateV t) = Inr (date_to_string bi t)"
| "to_string bi (Obj ps) =
     (if ''toString'' \<in> fst ` set ps then Inl TypeError else Inr ''[object Object]'')"
| "to_string bi (Arr xs) = join bi xs"
| "join bi [] = Inr []"
| "join bi (x # xs) =
     (case (if x = Null \<or> x = Undefined then Inr [] else to_string bi x) of
        Inl e \<Rightarrow> Inl e
      | Inr s \<Rightarrow>
          if xs = [] then Inr s
          else (case join bi xs of Inl e \<Rightarrow> Inl e | Inr r \<Rightarrow> Inr (s @ '','' @ r)))"

text \<open>\<^verbatim>\<open>Number(value)\<close>. An object or an array is converted through its string.\<close>

definition to_number :: "builtins \<Rightarrow> jsval \<Rightarrow> error + jsnum" where
  "to_number bi v =
     (case v of
        Undefined \<Rightarrow> Inr NaN
      | Null \<Rightarrow> Inr (Fin 0)
      | Bool b \<Rightarrow> Inr (Fin (if b then 1 else 0))
      | Num n \<Rightarrow> Inr n
      | Str s \<Rightarrow> Inr (string_to_number bi s)
      | Symbol d \<Rightarrow> Inl TypeError
      | BigInt i \<Rightarrow> Inr (bigint_to_number bi i)
      | DateV t \<Rightarrow> Inr (case t of None \<Rightarrow> NaN | Some ms \<Rightarrow> Fin (of_int ms))
      | _ \<Rightarrow> (case to_string bi v of Inl e \<Rightarrow> Inl e | Inr s \<Rightarrow> Inr (string_to_number bi s)))"

text \<open>
  \<^verbatim>\<open>parseInt(n)\<close> of a number. \<^verbatim>\<open>parseInt\<close> reads its argument as a string and stops at
  the first character that is not a digit. \<^verbatim>\<open>NaN\<close> and the infinities print without a
  digit, zero of either sign prints as \<^verbatim>\<open>0\<close>. A number \<open>r\<close> prints in decimal notation
  when it is below \<open>10\<^sup>2\<^sup>1\<close> in magnitude and not below the double nearest to \<open>10\<^sup>-\<^sup>6\<close>, which is
  \<open>4722366482869645 / 2\<^sup>7\<^sup>2\<close>: the digits before the point are those of the integer part
  of \<open>r\<close>, and a sign before a zero integer part gives \<open>-0\<close>. Any other number prints in
  exponential notation, with one digit before the point or the \<^verbatim>\<open>e\<close>.
\<close>

definition parseInt_number :: "builtins \<Rightarrow> jsnum \<Rightarrow> jsnum" where
  "parseInt_number bi n =
     (case n of
        Fin r \<Rightarrow>
          if r = 0 then Fin 0
          else if 4722366482869645 / 2 ^ 72 \<le> \<bar>r\<bar> \<and> \<bar>r\<bar> < 10 ^ 21 then
            (if \<lfloor>\<bar>r\<bar>\<rfloor> = 0 then (if r < 0 then NegZero else Fin 0)
             else Fin (sgn r * of_int \<lfloor>\<bar>r\<bar>\<rfloor>))
          else Fin (sgn r * digit_value (exponent_digit bi r))
      | NegZero \<Rightarrow> Fin 0
      | _ \<Rightarrow> NaN)"

text \<open>
  \<^verbatim>\<open>parseFloat(n)\<close> of a number: the string of a double reads back as that double, of
  \<^verbatim>\<open>NaN\<close> and the infinities as themselves, and \<open>-0\<close> prints as \<^verbatim>\<open>0\<close>.
\<close>

definition parseFloat_number :: "jsnum \<Rightarrow> jsnum" where
  "parseFloat_number n = (case n of NegZero \<Rightarrow> Fin 0 | _ \<Rightarrow> n)"

text \<open>\<^verbatim>\<open>value.toString()\<close>, which also works on a symbol.\<close>

definition toString_method :: "builtins \<Rightarrow> jsval \<Rightarrow> error + jsval" where
  "toString_method bi v =
     (case v of
        Undefined \<Rightarrow> Inl TypeError
      | Null \<Rightarrow> Inl TypeError
      | Symbol d \<Rightarrow> Inr (Str (''Symbol('' @ d @ '')''))
      | _ \<Rightarrow> (case to_string bi v of Inl e \<Rightarrow> Inl e | Inr s \<Rightarrow> Inr (Str s)))"

text \<open>
  The time value of \<^verbatim>\<open>new Date(n)\<close> for a number: invalid unless \<open>n\<close> is finite and at
  most \<open>8.64e15\<close> in magnitude, and truncated towards zero.
\<close>

definition time_clip :: "jsnum \<Rightarrow> int option" where
  "time_clip n =
     (case n of
        Fin r \<Rightarrow>
          if \<bar>r\<bar> \<le> 8640000000000000 then Some (if r < 0 then - \<lfloor>- r\<rfloor> else \<lfloor>r\<rfloor>)
          else None
      | NegZero \<Rightarrow> Some 0
      | _ \<Rightarrow> None)"

text \<open>
  \<^verbatim>\<open>new Date(value)\<close>: a string is parsed, as is the string of an object or an array;
  any other value is converted to a number.
\<close>

definition new_Date :: "builtins \<Rightarrow> jsval \<Rightarrow> error + jsval" where
  "new_Date bi v =
     (case v of
        Str s \<Rightarrow> Inr (DateV (date_parse bi s))
      | Symbol d \<Rightarrow> Inl TypeError
      | BigInt i \<Rightarrow> Inl TypeError
      | DateV t \<Rightarrow> Inr (DateV t)
      | Obj ps \<Rightarrow>
          (case to_string bi v of Inl e \<Rightarrow> Inl e | Inr s \<Rightarrow> Inr (DateV (date_parse bi s)))
      | Arr xs \<Rightarrow>
          (case to_string bi v of Inl e \<Rightarrow> Inl e | Inr s \<Rightarrow> Inr (DateV (date_parse bi s)))
      | _ \<Rightarrow> (case to_number bi v of Inl e \<Rightarrow> Inl e | Inr n \<Rightarrow> Inr (DateV (time_clip n))))"

text \<open>Lines 5-9. (\<open>ANY\<close>, line 4, is defined above.)\<close>

definition INTEGER :: "builtins \<Rightarrow> parsefn" where
  "INTEGER bi v =
     (if nullish v then Inr Null
      else (case to_number bi v of
              Inl e \<Rightarrow> Inl e
            | Inr n \<Rightarrow> Inr (Num (parseInt_number bi n))))"

definition FLOAT :: "builtins \<Rightarrow> parsefn" where
  "FLOAT bi v =
     (if nullish v then Inr Null
      else (case to_number bi v of
              Inl e \<Rightarrow> Inl e
            | Inr n \<Rightarrow> Inr (Num (parseFloat_number n))))"

definition STRING :: "builtins \<Rightarrow> parsefn" where
  "STRING bi v = (if nullish v then Inr Null else toString_method bi v)"

definition BOOLEAN :: parsefn where
  "BOOLEAN v = (if nullish v then Inr Null else Inr (Bool (js_truthy v)))"

definition DATE :: "builtins \<Rightarrow> parsefn" where
  "DATE bi v =
     (if nullish v then Inr Null
      else (case v of DateV t \<Rightarrow> Inr v | _ \<Rightarrow> new_Date bi v))"

text \<open>
  The values the specification calls null, primitives and Date-like, without symbols and
  BigInts.
\<close>

definition plain_scalar :: "jsval \<Rightarrow> bool" where
  "plain_scalar v =
     (case v of
        Undefined \<Rightarrow> True | Null \<Rightarrow> True | Bool b \<Rightarrow> True | Num n \<Rightarrow> True
      | Str s \<Rightarrow> True | DateV t \<Rightarrow> True | _ \<Rightarrow> False)"

text \<open>
  Two ways to compare results. \<open>number_equals\<close> is the language's \<^verbatim>\<open>==\<close> (and \<^verbatim>\<open>===\<close>)
  on two numbers: \<^verbatim>\<open>NaN\<close> equals nothing, itself included, and the two zeros are equal.
  \<open>same_value\<close> holds of two values that are the same but for the sign of a zero (the
  language's \<open>SameValueZero\<close>): \<^verbatim>\<open>NaN\<close> is the same value as \<^verbatim>\<open>NaN\<close>.
\<close>

definition number_equals :: "jsnum \<Rightarrow> jsnum \<Rightarrow> bool" where
  "number_equals a b =
     (a \<noteq> NaN \<and> b \<noteq> NaN \<and> (a = b \<or> (a = NegZero \<and> b = Fin 0) \<or> (a = Fin 0 \<and> b = NegZero)))"

definition same_value :: "jsval \<Rightarrow> jsval \<Rightarrow> bool" where
  "same_value a b =
     (a = b \<or> (a = Num NegZero \<and> b = Num (Fin 0)) \<or> (a = Num (Fin 0) \<and> b = Num NegZero))"

section \<open>A sample database\<close>

text \<open>
  A store that keeps, per collection, the list of the values handed to its two write
  primitives, and databases made by \<^verbatim>\<open>define\<close>: \<^verbatim>\<open>people\<close> declared strict and
  non-strict, with a not-null property and a not-null property with a default value.
\<close>

definition sample_store :: "jsval list store" where
  "sample_store =
     \<lparr>addCollection = (\<lambda>name opts. Inr []),
      insert_primitive = (\<lambda>v c. (Inr v, c @ [v])),
      update_primitive = (\<lambda>v c. (Inr v, c @ [v]))\<rparr>"

definition people_definition :: "(string \<times> decl) list" where
  "people_definition =
     [(''name'', TypeFunction ANY),
      (''active'', SpecObject \<lparr>type_fn = Some BOOLEAN, allowNull = Bool False,
                           defaultValue = Undefined, unique = Undefined\<rparr>),
      (''role'', SpecObject \<lparr>type_fn = None, allowNull = Bool False,
                            defaultValue = Str ''guest'', unique = Bool True\<rparr>)]"

definition strict_db :: "jsval list jotnar" where
  "strict_db = snd (define_model sample_store new_jotnar ''people'' people_definition NoOptions)"

definition loose_db :: "jsval list jotnar" where
  "loose_db = snd (define_model sample_store new_jotnar ''people'' people_definition OptionsTrue)"

text \<open>
  The registry entry and the collection that \<open>strict_db\<close> and \<open>loose_db\<close> hold for
  \<^verbatim>\<open>people\<close>.
\<close>

definition people_model :: "jsval \<Rightarrow> model" where
  "people_model ns =
     \<lparr>m_collection = Some ''people'',
      m_unique = [''role''],
      m_scheme = [(''name'', \<lparr>parse = ANY, notNull = False\<rparr>),
                  (''active'', \<lparr>parse = BOOLEAN, notNull = True\<rparr>),
                  (''role'', \<lparr>parse = ANY, notNull = True\<rparr>)],
      m_defaultObject = [(''name'', Null), (''active'', Null), (''role'', Str ''guest'')],
      m_nonStrict = ns\<rparr>"

definition people_collection :: "jsval list \<Rightarrow> jsval list collection" where
  "people_collection c = \<lparr>contents = c, uniqueNames = [''role''], intercepted = True\<rparr>"

text \<open>The database left by a declaration of the reserved property \<^verbatim>\<open>meta\<close>.\<close>

definition reserved_db :: "jsval list jotnar" where
  "reserved_db =
     snd (define_model sample_store new_jotnar ''people'' [(''meta'', TypeFunction ANY)] NoOptions)"

section \<open>Sequences of calls\<close>

text \<open>
  A client of the database calls \<^verbatim>\<open>define\<close> and, on the collections it returns,
  \<^verbatim>\<open>insert\<close> and \<^verbatim>\<open>update\<close>. \<open>perform_all\<close> is the state after a sequence of such calls,
  whatever each of them returned or threw.
\<close>

datatype call =
    Define string "(string \<times> decl) list" options
  | Insert string jsval
  | Update string jsval

fun perform :: "'c store \<Rightarrow> 'c jotnar \<Rightarrow> call \<Rightarrow> 'c jotnar" where
  "perform lk st (Define name definition options) =
     snd (define_model lk st name definition options)"
| "perform lk st (Insert name object) = snd (insert_intercepted lk st name object)"
| "perform lk st (Update name object) = snd (update_intercepted lk st name object)"

fun perform_all :: "'c store \<Rightarrow> 'c jotnar \<Rightarrow> call list \<Rightarrow> 'c jotnar" where
  "perform_all lk st [] = st"
| "perform_all lk st (c # cs) = perform_all lk (perform lk st c) cs"

section \<open>Properties\<close>

subsection \<open>Plain objects\<close>

lemma js_get_set_same: "js_get ps k = Absent \<Longrightarrow> js_get (js_set ps k v) k = Own v"
  by (auto simp: js_get_def js_set_def object_prototype_names_def update_conv' split: option.splits if_splits)

lemma js_get_set_other: "k' \<noteq> k \<Longrightarrow> js_get (js_set ps k v) k' = js_get ps k'"
  by (simp add: js_get_def js_set_def update_conv')


lemma absent_not_proto: "js_get ps k = Absent \<Longrightarrow> k \<noteq> ''__proto__''"
  by (auto simp: js_get_def object_prototype_names_def split: option.splits if_splits)

lemma js_set_keys:
  "map fst (js_set ps k v) =
     (if k = ''__proto__'' \<or> k \<in> fst ` set ps then map fst ps else map fst ps @ [k])"
  by (simp add: js_set_def update_keys)

lemma js_set_keys_cong:
  "map fst ps = map fst qs \<Longrightarrow> map fst (js_set ps k v) = map fst (js_set qs k w)"
  by (simp add: js_set_def update_keys)

lemma map_of_js_set: "map_of (js_set ps k v) = (if k = ''__proto__'' then map_of ps else (map_of ps)(k \<mapsto> v))"
  by (simp add: js_set_def update_conv')

lemma map_of_js_set_other: "k \<noteq> k0 \<Longrightarrow> map_of (js_set acc k0 v) k = map_of acc k"
  by (simp add: map_of_js_set)

lemma map_of_js_set_same: "k0 \<noteq> ''__proto__'' \<Longrightarrow> map_of (js_set acc k0 v) k0 = Some v"
  by (simp add: map_of_js_set)

lemma map_of_rev_Cons:
  "map_of (rev ((k0, v) # ps)) k =
     (case map_of (rev ps) k of Some x \<Rightarrow> Some x | None \<Rightarrow> (if k = k0 then Some v else None))"
  by (simp add: map_add_def split: option.splits)

lemma json_props_keys: "json_props ps = Inr t \<Longrightarrow> set (map fst t) \<subseteq> set (map fst ps)"
proof (induction ps arbitrary: t)
  case Nil
  then show ?case by simp
next
  case (Cons kv ps)
  obtain k v where kv: "kv = (k, v)" by (cases kv)
  show ?case
  proof (cases "json_value v")
    case (Inl e)
    with Cons.prems kv show ?thesis by simp
  next
    case (Inr o1)
    show ?thesis
    proof (cases o1)
      case None
      with Inr Cons.prems kv have "json_props ps = Inr t" by simp
      then have "set (map fst t) \<subseteq> set (map fst ps)" by (rule Cons.IH)
      then show ?thesis by auto
    next
      case (Some v')
      with Inr Cons.prems kv obtain t' where t': "json_props ps = Inr t'" "t = (k, v') # t'"
        by (cases "json_props ps") simp_all
      from t'(1) have "set (map fst t') \<subseteq> set (map fst ps)" by (rule Cons.IH)
      with t'(2) kv show ?thesis by auto
    qed
  qed
qed

subsection \<open>The sample database\<close>

lemmas sample_defs = define_model_def new_jotnar_def people_definition_def sample_store_def
  options_object_def js_get_def js_set_def js_read_def define_prop_def object_prototype_names_def
  people_model_def people_collection_def Let_def js_truthy_def

lemma strict_db_eq:
  "strict_db = \<lparr>models = [(''people'', people_model Undefined)],
                 collections = [(''people'', people_collection [])]\<rparr>"
  by (simp add: strict_db_def sample_defs)

lemma loose_db_eq:
  "loose_db = \<lparr>models = [(''people'', people_model (Bool True))],
                 collections = [(''people'', people_collection [])]\<rparr>"
  by (simp add: loose_db_def sample_defs)

lemmas doc_defs = insert_doc_def update_doc_def own_props_def nullish_at_def nullish_def
  js_truthy_def ANY_def BOOLEAN_def as_array_def reserved_field_def

subsection \<open>The registry\<close>

text \<open>
  \<^verbatim>\<open>insert\<close> and \<^verbatim>\<open>update\<close> leave the registry alone, and \<^verbatim>\<open>update\<close> neither adds nor
  removes a collection.
\<close>

lemma call_primitive_models: "models (snd (call_primitive prim st m arg)) = models st"
  by (simp add: call_primitive_def split: option.splits prod.splits)

lemma call_primitive_collections:
  "dom (map_of (collections (snd (call_primitive prim st m arg)))) = dom (map_of (collections st))"
  by (auto simp: call_primitive_def update_conv' split: option.splits prod.splits if_splits)

lemma insert_models: "models (snd (insert_intercepted lk st name object)) = models st"
  by (simp add: insert_intercepted_def call_primitive_models split: lookup.splits sum.splits)

lemma update_single_models: "models (snd (update_single lk st name object)) = models st"
  by (simp add: update_single_def call_primitive_models split: lookup.splits sum.splits)

lemma update_single_collections:
  "dom (map_of (collections (snd (update_single lk st name object)))) = dom (map_of (collections st))"
  by (simp add: update_single_def call_primitive_collections split: lookup.splits sum.splits)

lemma update_keeps:
  "models (snd (update_intercepted lk st name object)) = models st
     \<and> dom (map_of (collections (snd (update_intercepted lk st name object))))
         = dom (map_of (collections st))"
  "models (snd (loki_update_each lk st name docs)) = models st
     \<and> dom (map_of (collections (snd (loki_update_each lk st name docs))))
         = dom (map_of (collections st))"
proof (induction lk st name object and lk st name docs
    rule: update_intercepted_loki_update_each.induct)
  case (1 lk st name docs)
  then show ?case by (simp split: lookup.splits option.splits)
next
  case (4 lk st name doc docs)
  obtain r st' where u: "update_intercepted lk st name doc = (r, st')"
    by (cases "update_intercepted lk st name doc")
  show ?case
  proof (cases r)
    case (Inl e)
    with u "4.IH"(1) show ?thesis by simp
  next
    case (Inr b)
    with u "4.IH"(1) "4.IH"(2) [of r st' b] show ?thesis by simp
  qed
qed (simp_all add: update_single_models update_single_collections)

lemma update_models: "models (snd (update_intercepted lk st name object)) = models st"
  by (simp add: update_keeps)

text \<open>
  \<^verbatim>\<open>define\<close> on a name that is taken, and what any call of \<^verbatim>\<open>define\<close> does to the
  registry: the name it is called with is taken afterwards, and no other name changes.
\<close>

lemma define_taken:
  "js_get (models st) name \<noteq> Absent \<Longrightarrow>
     define_model lk st name definition options = (Inl (Redefinition name), st)"
  by (cases "js_get (models st) name") (simp_all add: define_model_def)

lemma define_fresh_models:
  assumes "js_get (models st) name = Absent"
  shows "\<exists>m. models (snd (define_model lk st name definition options)) = js_set (models st) name m"
proof -
  let ?compiled = "define_props definition \<lparr>m_collection = None, m_unique = [], m_scheme = [], m_defaultObject = [],
                  m_nonStrict = js_read (options_object options) ''allowExtraProperties''\<rparr>"
  show ?thesis
  proof (cases "map_of definition ''meta'' \<noteq> None \<or> map_of definition ''$loki'' \<noteq> None")
    case True
    with assms show ?thesis by (auto simp: define_model_def Let_def)
  next
    case False
    note nores = this
    show ?thesis
    proof (cases "map_of (collections st) name")
      case (Some c)
      with nores assms show ?thesis by (auto simp: define_model_def Let_def)
    next
      case None
      show ?thesis
      proof (cases "addCollection lk name
                       (AList.update ''unique'' (Arr (map Str (m_unique ?compiled))) (options_object options))")
        case (Inl e)
        with None nores assms show ?thesis by (auto simp: define_model_def Let_def)
      next
        case (Inr c)
        with None nores assms show ?thesis by (auto simp: define_model_def Let_def)
      qed
    qed
  qed
qed

lemma define_occupies:
  "js_get (models (snd (define_model lk st name definition options))) name \<noteq> Absent"
proof (cases "js_get (models st) name = Absent")
  case False
  then show ?thesis by (simp add: define_taken)
next
  case True
  from define_fresh_models [OF True] obtain m
    where "models (snd (define_model lk st name definition options)) = js_set (models st) name m"
    by blast
  with True show ?thesis by (simp add: js_get_set_same)
qed

lemma define_keeps_other:
  assumes "name \<noteq> n"
  shows "js_get (models (snd (define_model lk st n definition options))) name = js_get (models st) name"
proof (cases "js_get (models st) n = Absent")
  case False
  then show ?thesis by (simp add: define_taken)
next
  case True
  from define_fresh_models [OF True] obtain m
    where "models (snd (define_model lk st n definition options)) = js_set (models st) n m"
    by blast
  with assms show ?thesis by (simp add: js_get_set_other)
qed

lemma define_keeps_entry:
  assumes "js_get (models st) name = Own m"
  shows "js_get (models (snd (define_model lk st n definition options))) name = Own m"
proof (cases "name = n")
  case True
  with assms show ?thesis by (simp add: define_taken)
next
  case False
  with assms show ?thesis by (simp add: define_keeps_other)
qed

lemma define_keeps_inherited:
  assumes "js_get (models st) name = Inherited"
  shows "js_get (models (snd (define_model lk st n definition options))) name = Inherited"
proof (cases "name = n")
  case True
  with assms show ?thesis by (simp add: define_taken)
next
  case False
  with assms show ?thesis by (simp add: define_keeps_other)
qed

lemma perform_keeps_entry:
  "js_get (models st) name = Own m \<Longrightarrow> js_get (models (perform lk st c)) name = Own m"
  by (cases c) (simp_all add: define_keeps_entry insert_models update_models)

lemma perform_keeps_inherited:
  "js_get (models st) name = Inherited \<Longrightarrow> js_get (models (perform lk st c)) name = Inherited"
  by (cases c) (simp_all add: define_keeps_inherited insert_models update_models)

lemma perform_all_keeps_entry:
  "js_get (models st) name = Own m \<Longrightarrow> js_get (models (perform_all lk st cs)) name = Own m"
  by (induction cs arbitrary: st) (simp_all add: perform_keeps_entry)

lemma perform_all_occupied:
  "js_get (models st) name \<noteq> Absent \<Longrightarrow> js_get (models (perform_all lk st cs)) name \<noteq> Absent"
proof (induction cs arbitrary: st)
  case Nil
  then show ?case by simp
next
  case (Cons c cs)
  have "js_get (models (perform lk st c)) name \<noteq> Absent"
  proof (cases "js_get (models st) name")
    case (Own m)
    then show ?thesis by (simp add: perform_keeps_entry)
  next
    case Inherited
    then show ?thesis by (simp add: perform_keeps_inherited)
  next
    case Absent
    with Cons.prems show ?thesis by simp
  qed
  then show ?case using Cons.IH by simp
qed

text \<open>
  Claim C5. After a call of \<^verbatim>\<open>define\<close> for a name, whatever that call did and whatever
  calls of \<^verbatim>\<open>define\<close>, \<^verbatim>\<open>insert\<close> and \<^verbatim>\<open>update\<close> follow, another \<^verbatim>\<open>define\<close> for the
  same name throws the redefinition error and leaves the whole state as it was: every
  registry entry (rules, default template, unique names, strictness flag, collection
  handle) and every collection with its documents.
\<close>

theorem define_twice_fails:
  "define_model lk' (perform_all lk (snd (define_model lk st name definition options)) cs)
       name definition' options'
     = (Inl (Redefinition name),
        perform_all lk (snd (define_model lk st name definition options)) cs)"
  by (rule define_taken) (rule perform_all_occupied, rule define_occupies)

subsection \<open>Reserved properties\<close>

lemma define_props_keys:
  "map fst (m_scheme m) = map fst (m_defaultObject m) \<Longrightarrow>
     map fst (m_scheme (define_props ds m)) = map fst (m_defaultObject (define_props ds m))"
proof (induction ds arbitrary: m)
  case Nil
  then show ?case by simp
next
  case (Cons pd ds)
  obtain k d where pd: "pd = (k, d)" by (cases pd)
  have "map fst (m_scheme (define_prop k d m)) = map fst (m_defaultObject (define_prop k d m))"
    using Cons.prems by (cases d) (simp_all add: define_prop_def js_set_keys_cong)
  then show ?case using Cons.IH pd by simp
qed

lemma define_props_collection: "m_collection (define_props ds m) = m_collection m"
proof (induction ds arbitrary: m)
  case Nil
  then show ?case by simp
next
  case (Cons pd ds)
  obtain k d where pd: "pd = (k, d)" by (cases pd)
  have "m_collection (define_prop k d m) = m_collection m"
    by (cases d) (simp_all add: define_prop_def)
  then show ?case using Cons.IH pd by simp
qed

lemma define_props_no_proto:
  "''__proto__'' \<notin> fst ` set (m_defaultObject m) \<Longrightarrow>
     ''__proto__'' \<notin> fst ` set (m_defaultObject (define_props ds m))"
proof (induction ds arbitrary: m)
  case Nil
  then show ?case by simp
next
  case (Cons pd ds)
  obtain k d where pd: "pd = (k, d)" by (cases pd)
  have "set (map fst (m_defaultObject (define_prop k d m)))
          \<subseteq> set (map fst (m_defaultObject m)) \<union> ({k} - {''__proto__''})"
    by (cases d) (auto simp: define_prop_def js_set_keys)
  with Cons.prems have "''__proto__'' \<notin> fst ` set (m_defaultObject (define_prop k d m))"
    by auto
  then show ?case using Cons.IH pd by simp
qed

text \<open>The throw of lines 81-82, with the entry that line 73 has written.\<close>

lemma define_reserved_result:
  assumes "js_get (models st) name = Absent"
    and "''meta'' \<in> fst ` set definition \<or> ''$loki'' \<in> fst ` set definition"
  shows "define_model lk st name definition options =
     (Inl (ReservedProperty (if ''meta'' \<in> fst ` set definition then ''meta'' else ''$loki'')),
      st\<lparr>models := js_set (models st) name
            \<lparr>m_collection = None, m_unique = [], m_scheme = [], m_defaultObject = [],
             m_nonStrict = js_read (options_object options) ''allowExtraProperties''\<rparr>\<rparr>)"
  using assms by (auto simp: define_model_def Let_def map_of_eq_None_iff)

text \<open>
  For a name at which the lookup \<^verbatim>\<open>this.models[name]\<close> of line 70 finds nothing, and a
  declaration with a property named \<^verbatim>\<open>meta\<close> or \<^verbatim>\<open>$loki\<close>, \<^verbatim>\<open>define\<close> throws the
  reserved-property error. It does so before the store is asked for anything: the error
  and the registry left behind are the same for every store and for every list of
  collections the database may hold, and the collections are left as they were.
\<close>

theorem define_reserved_before_collection:
  assumes "js_get (models st) name = Absent"
    and "''meta'' \<in> fst ` set definition \<or> ''$loki'' \<in> fst ` set definition"
  shows "\<exists>p m. (p = ''meta'' \<or> p = ''$loki'')
           \<and> (\<forall>lk cs. define_model lk (st\<lparr>collections := cs\<rparr>) name definition options
                 = (Inl (ReservedProperty p),
                    st\<lparr>models := js_set (models st) name m, collections := cs\<rparr>))"
proof -
  let ?p = "if ''meta'' \<in> fst ` set definition then ''meta'' else ''$loki''"
  let ?m = "\<lparr>m_collection = None, m_unique = [], m_scheme = [], m_defaultObject = [],
             m_nonStrict = js_read (options_object options) ''allowExtraProperties''\<rparr>"
  have "define_model lk (st\<lparr>collections := cs\<rparr>) name definition options
          = (Inl (ReservedProperty ?p), st\<lparr>models := js_set (models st) name ?m, collections := cs\<rparr>)"
    for lk :: "'a store" and cs
    using define_reserved_result [of "st\<lparr>collections := cs\<rparr>" name "definition" lk options] assms
    by simp
  moreover have "?p = ''meta'' \<or> ?p = ''$loki''" by simp
  ultimately show ?thesis by blast
qed

theorem define_reserved_before_collection_witness:
  "\<exists>p m. (p = ''meta'' \<or> p = ''$loki'')
      \<and> (\<forall>lk cs. define_model lk ((new_jotnar :: jsval list jotnar)\<lparr>collections := cs\<rparr>) ''people''
               [(''name'', TypeFunction ANY), (''$loki'', TypeFunction ANY)] OptionsTrue
            = (Inl (ReservedProperty p),
               (new_jotnar :: jsval list jotnar)\<lparr>models :=
                  js_set (models (new_jotnar :: jsval list jotnar)) ''people'' m,
                  collections := cs\<rparr>))"
proof -
  have a: "js_get (models (new_jotnar :: jsval list jotnar)) ''people'' = Absent"
    by (simp add: new_jotnar_def js_get_def object_prototype_names_def)
  have b: "''meta'' \<in> fst ` set [(''name'', TypeFunction ANY), (''$loki'', TypeFunction ANY)]
         \<or> ''$loki'' \<in> fst ` set [(''name'', TypeFunction ANY), (''$loki'', TypeFunction ANY)]"
    by simp
  from define_reserved_before_collection [OF a b, where options = OptionsTrue] show ?thesis .
qed

text \<open>
  Claim C6, at a model name that no call has declared and that is the name of a member of
  \<^verbatim>\<open>Object.prototype\<close>. The registry is a plain object, so \<^verbatim>\<open>this.models[name]\<close> at line
  70 finds the inherited member, which is truthy: on a new database, \<^verbatim>\<open>define\<close> of
  \<^verbatim>\<open>constructor\<close> with a property \<^verbatim>\<open>meta\<close>, and of \<^verbatim>\<open>toString\<close> with a property \<^verbatim>\<open>$loki\<close>,
  throw the redefinition error, not the reserved-property error, and register nothing.
\<close>

theorem define_inherited_name_redefinition:
  "define_model sample_store (new_jotnar :: jsval list jotnar) ''constructor''
       [(''meta'', TypeFunction ANY)] NoOptions
     = (Inl (Redefinition ''constructor''), new_jotnar)
   \<and> define_model sample_store (new_jotnar :: jsval list jotnar) ''toString''
       [(''name'', TypeFunction ANY), (''$loki'', TypeFunction ANY)] OptionsTrue
     = (Inl (Redefinition ''toString''), new_jotnar)
   \<and> models (new_jotnar :: jsval list jotnar) = []"
  by (simp add: define_model_def new_jotnar_def js_get_def object_prototype_names_def)

text \<open>A call of \<^verbatim>\<open>define\<close> that throws after line 70 leaves an entry without a collection.\<close>

lemma define_failed_entry:
  assumes "js_get (models st) name = Absent"
    and "define_model lk st name definition options = (Inl e, st')"
  shows "\<exists>m. models st' = js_set (models st) name m \<and> m_collection m = None"
proof -
  let ?init = "\<lparr>m_collection = None, m_unique = [], m_scheme = [], m_defaultObject = [],
             m_nonStrict = js_read (options_object options) ''allowExtraProperties''\<rparr>"
  let ?compiled = "define_props definition ?init"
  show ?thesis
  proof (cases "''meta'' \<in> fst ` set definition \<or> ''$loki'' \<in> fst ` set definition")
    case True
    from define_reserved_result [OF assms(1) True, of lk options] assms(2)
    have "models st' = js_set (models st) name ?init" by auto
    then show ?thesis by auto
  next
    case False
    then have nores: "map_of definition ''meta'' = None" "map_of definition ''$loki'' = None"
      by (simp_all add: map_of_eq_None_iff)
    show ?thesis
    proof (cases "map_of (collections st) name")
      case (Some c)
      with nores assms show ?thesis by (simp add: define_model_def Let_def)
    next
      case None
      show ?thesis
      proof (cases "addCollection lk name
                       (AList.update ''unique'' (Arr (map Str (m_unique ?compiled))) (options_object options))")
        case (Inl e')
        with None nores assms have "models st' = js_set (models st) name ?compiled"
          by (auto simp: define_model_def Let_def)
        moreover have "m_collection ?compiled = None" by (simp add: define_props_collection)
        ultimately show ?thesis by blast
      next
        case (Inr c)
        with None nores assms show ?thesis by (simp add: define_model_def Let_def)
      qed
    qed
  qed
qed

text \<open>
  Claim C10. When \<^verbatim>\<open>define\<close> throws the reserved-property error, the entry of line 73
  is already in the registry and stays there with a \<^verbatim>\<open>null\<close> collection handle: after
  any further calls, \<^verbatim>\<open>getModel\<close> of the name returns \<^verbatim>\<open>null\<close> and every \<^verbatim>\<open>define\<close>
  of the name throws the redefinition error and changes nothing.
\<close>

theorem reserved_failure_occupies_name:
  assumes "define_model lk st name definition options = (Inl (ReservedProperty p), st')"
  shows "\<exists>m. m_collection m = None
           \<and> (\<forall>lk' cs. js_get (models (perform_all lk' st' cs)) name = Own m
                 \<and> getModel (perform_all lk' st' cs) name = NullHandle
                 \<and> (\<forall>lk'' definition' options'.
                       define_model lk'' (perform_all lk' st' cs) name definition' options'
                         = (Inl (Redefinition name), perform_all lk' st' cs)))"
proof -
  have fresh: "js_get (models st) name = Absent"
  proof (rule ccontr)
    assume "js_get (models st) name \<noteq> Absent"
    from define_taken [OF this, of lk "definition" options] assms show False by simp
  qed
  from define_failed_entry [OF fresh assms] obtain m
    where m: "models st' = js_set (models st) name m" "m_collection m = None" by blast
  from fresh m(1) have own: "js_get (models st') name = Own m"
    by (simp add: js_get_set_same)
  have "js_get (models (perform_all lk' st' cs)) name = Own m
        \<and> getModel (perform_all lk' st' cs) name = NullHandle
        \<and> (\<forall>lk'' definition' options'.
               define_model lk'' (perform_all lk' st' cs) name definition' options'
                 = (Inl (Redefinition name), perform_all lk' st' cs))"
    for lk' :: "'a store" and cs
  proof -
    from own have o: "js_get (models (perform_all lk' st' cs)) name = Own m"
      by (rule perform_all_keeps_entry)
    then have "getModel (perform_all lk' st' cs) name = NullHandle"
      using m(2) by (simp add: getModel_def)
    moreover from o have "define_model lk'' (perform_all lk' st' cs) name definition' options'
                 = (Inl (Redefinition name), perform_all lk' st' cs)"
      for lk'' :: "'a store" and definition' options'
      by (simp add: define_taken)
    ultimately show ?thesis using o by blast
  qed
  with m(2) show ?thesis by blast
qed

theorem reserved_failure_occupies_name_witness:
  "define_model sample_store new_jotnar ''people'' [(''meta'', TypeFunction ANY)] NoOptions
     = (Inl (ReservedProperty ''meta''), reserved_db)
   \<and> (\<exists>m. m_collection m = None
         \<and> (\<forall>lk' cs. js_get (models (perform_all lk' reserved_db cs)) ''people'' = Own m
               \<and> getModel (perform_all lk' reserved_db cs) ''people'' = NullHandle
               \<and> (\<forall>lk'' definition' options'.
                     define_model lk'' (perform_all lk' reserved_db cs) ''people''
                         definition' options'
                       = (Inl (Redefinition ''people''), perform_all lk' reserved_db cs))))"
proof -
  have h: "define_model sample_store new_jotnar ''people'' [(''meta'', TypeFunction ANY)] NoOptions
             = (Inl (ReservedProperty ''meta''), reserved_db)"
    by (simp add: reserved_db_def sample_defs)
  from reserved_failure_occupies_name [OF h] h show ?thesis by blast
qed

subsection \<open>The rules and the default template have the same keys\<close>

lemma define_success_entry:
  assumes "define_model lk st name definition options = (Inr h, st')"
  shows "js_get (models st') name
           = Own ((define_props definition
                    \<lparr>m_collection = None, m_unique = [], m_scheme = [], m_defaultObject = [],
                     m_nonStrict = js_read (options_object options) ''allowExtraProperties''\<rparr>)
                  \<lparr>m_collection := Some name\<rparr>)"
proof -
  let ?init = "\<lparr>m_collection = None, m_unique = [], m_scheme = [], m_defaultObject = [],
             m_nonStrict = js_read (options_object options) ''allowExtraProperties''\<rparr>"
  let ?compiled = "define_props definition ?init"
  have fresh: "js_get (models st) name = Absent"
  proof (rule ccontr)
    assume "js_get (models st) name \<noteq> Absent"
    from define_taken [OF this, of lk "definition" options] assms show False by simp
  qed
  have nores: "map_of definition ''meta'' = None" "map_of definition ''$loki'' = None"
    using assms fresh by (auto simp: define_model_def Let_def split: if_splits)
  have "models st' = js_set (models st) name (?compiled\<lparr>m_collection := Some name\<rparr>)"
  proof (cases "map_of (collections st) name")
    case (Some c)
    with nores fresh assms show ?thesis by (auto simp: define_model_def Let_def)
  next
    case None
    show ?thesis
    proof (cases "addCollection lk name
                     (AList.update ''unique'' (Arr (map Str (m_unique ?compiled))) (options_object options))")
      case (Inl e')
      with None nores fresh assms show ?thesis by (simp add: define_model_def Let_def)
    next
      case (Inr c)
      with None nores fresh assms show ?thesis by (auto simp: define_model_def Let_def)
    qed
  qed
  with fresh show ?thesis by (simp add: js_get_set_same)
qed



subsection \<open>Batch insert is all or nothing\<close>

lemma insert_loop_fails:
  "obj \<in> set objs \<Longrightarrow> insert_doc m name obj = Inl e0 \<Longrightarrow> \<exists>e. insert_loop m name objs acc = Inl e"
  by (induction objs arbitrary: acc) (auto split: sum.splits)

text \<open>
  Claim C1. When any document of the sequence passed to the intercepted \<^verbatim>\<open>insert\<close> fails
  its normalization (the not-null error, or any other error thrown there), the call
  fails, whatever the store is: the result and the state do not depend on the store's
  primitives, so none of them ran and no document reached the original \<^verbatim>\<open>insert\<close>,
  not even one that was normalized before the failing one; the state, with the contents
  of every collection, is the one before the call.
\<close>

theorem insert_batch_atomic:
  assumes "js_get (models st) name = Own m"
    and "obj \<in> set (as_array object)"
    and "insert_doc m name obj = Inl e0"
  shows "\<exists>e. \<forall>lk. insert_intercepted lk st name object = (Inl e, st)"
proof -
  from insert_loop_fails [OF assms(2,3)]
  obtain e where "insert_loop m name (as_array object) [] = Inl e" by blast
  with assms(1) have "\<forall>lk. insert_intercepted lk st name object = (Inl e, st)"
    by (simp add: insert_intercepted_def)
  then show ?thesis ..
qed

theorem insert_batch_atomic_witness:
  "insert_doc (people_model Undefined) ''people'' (Obj [(''active'', Str ''yes'')])
     = Inr [(''name'', Null), (''active'', Bool True), (''role'', Str ''guest'')]
   \<and> insert_doc (people_model Undefined) ''people'' (Obj [(''active'', Null)])
     = Inl (NotNullConstraint ''active'' ''people'')
   \<and> (\<exists>e. \<forall>lk. insert_intercepted lk strict_db ''people''
          (Arr [Obj [(''active'', Str ''yes'')], Obj [(''active'', Null)]]) = (Inl e, strict_db))"
proof -
  have m: "js_get (models strict_db) ''people'' = Own (people_model Undefined)"
    by (simp add: strict_db_eq js_get_def)
  have d: "insert_doc (people_model Undefined) ''people'' (Obj [(''active'', Null)])
     = Inl (NotNullConstraint ''active'' ''people'')"
    by (simp add: people_model_def doc_defs js_get_def js_set_def)
  have d1: "insert_doc (people_model Undefined) ''people'' (Obj [(''active'', Str ''yes'')])
     = Inr [(''name'', Null), (''active'', Bool True), (''role'', Str ''guest'')]"
    by (simp add: people_model_def doc_defs js_get_def js_set_def)
  have i: "Obj [(''active'', Null)] \<in> set (as_array (Arr [Obj [(''active'', Str ''yes'')], Obj [(''active'', Null)]]))"
    by (simp add: as_array_def)
  from insert_batch_atomic [OF m i d] d d1 show ?thesis by blast
qed

text \<open>
  When every document passes, the normalized documents, all of them and in their order,
  go to the original \<^verbatim>\<open>insert\<close> in one call (line 135).
\<close>

lemma insert_success:
  assumes "js_get (models st) name = Own m"
    and "insert_loop m name (as_array object) [] = Inr listToInsert"
  shows "insert_intercepted lk st name object
           = call_primitive (insert_primitive lk) st m (Arr (map Obj listToInsert))"
  using assms by (simp add: insert_intercepted_def)

subsection \<open>Undeclared properties\<close>

text \<open>
  What the loop of lines 120-126 leaves at a key that \<^verbatim>\<open>_scheme\<close> does not have, not even
  through its prototype.
\<close>

lemma insert_props_undeclared:
  assumes "insert_props m ps acc = Inr d" and "js_get (m_scheme m) k = Absent"
  shows "map_of d k =
           (if js_truthy (m_nonStrict m)
            then (case map_of (rev ps) k of Some v \<Rightarrow> Some v | None \<Rightarrow> map_of acc k)
            else map_of acc k)"
  using assms(1)
proof (induction ps arbitrary: acc)
  case Nil
  then show ?case by simp
next
  case (Cons kv ps)
  obtain k0 v where kv: "kv = (k0, v)" by (cases kv)
  show ?case
  proof (cases "js_get (m_scheme m) k0")
    case (Own r)
    with assms(2) have ne: "k \<noteq> k0" by auto
    from Own kv Cons.prems obtain v' where v': "parse r v = Inr v'"
      by (cases "parse r v") simp_all
    with Own kv Cons.prems have "insert_props m ps (js_set acc k0 v') = Inr d" by simp
    from Cons.IH [OF this] have "map_of d k =
           (if js_truthy (m_nonStrict m)
            then (case map_of (rev ps) k of Some v \<Rightarrow> Some v | None \<Rightarrow> map_of acc k)
            else map_of acc k)"
      by (simp only: map_of_js_set_other [OF ne])
    moreover have "map_of (rev (kv # ps)) k = map_of (rev ps) k"
      unfolding kv map_of_rev_Cons using ne by (simp split: option.splits)
    ultimately show ?thesis by simp
  next
    case Inherited
    with kv Cons.prems show ?thesis by simp
  next
    case Absent
    then have np: "k0 \<noteq> ''__proto__''" by (rule absent_not_proto)
    show ?thesis
    proof (cases "js_truthy (m_nonStrict m)")
      case True
      with Absent kv Cons.prems have "insert_props m ps (js_set acc k0 v) = Inr d" by simp
      from Cons.IH [OF this] True have d: "map_of d k =
           (case map_of (rev ps) k of Some v \<Rightarrow> Some v | None \<Rightarrow> map_of (js_set acc k0 v) k)"
        by simp
      show ?thesis
      proof (cases "k = k0")
        case same: True
        from d same np have "map_of d k = (case map_of (rev ps) k of Some x \<Rightarrow> Some x | None \<Rightarrow> Some v)"
          by (simp add: map_of_js_set_same split: option.splits)
        with same True show ?thesis unfolding kv map_of_rev_Cons
          by (simp split: option.splits)
      next
        case other: False
        from d other have "map_of d k = (case map_of (rev ps) k of Some x \<Rightarrow> Some x | None \<Rightarrow> map_of acc k)"
          by (simp add: map_of_js_set_other split: option.splits)
        with other True show ?thesis unfolding kv map_of_rev_Cons
          by (simp split: option.splits)
      qed
    next
      case False
      with Absent kv Cons.prems have "insert_props m ps acc = Inr d" by simp
      from Cons.IH [OF this] False show ?thesis by simp
    qed
  qed
qed

text \<open>
  The two halves of claim C7 for an undeclared property whose name is not the name of a
  member of \<^verbatim>\<open>Object.prototype\<close>: a non-strict model keeps its value, a strict model
  drops it.
\<close>

lemma insert_keeps_extra:
  assumes "js_truthy (m_nonStrict m)"
    and "js_get (m_scheme m) extra = Absent"
    and "distinct (map fst raw)" and "(extra, v) \<in> set raw"
    and "insert_doc m name (Obj raw) = Inr d"
  shows "map_of d extra = Some v"
proof -
  from assms(5) obtain template where t: "json_props (m_defaultObject m) = Inr template"
    and p: "insert_props m raw template = Inr d"
    by (auto simp: insert_doc_def own_props_def split: sum.splits)
  from assms(3,4) have "map_of (rev raw) extra = Some v"
    by (simp add: distinct_map)
  with insert_props_undeclared [OF p assms(2)] assms(1) show ?thesis by simp
qed

lemma insert_drops_extra:
  assumes "\<not> js_truthy (m_nonStrict m)"
    and "js_get (m_scheme m) extra = Absent"
    and "extra \<notin> fst ` set (m_defaultObject m)"
    and "insert_doc m name obj = Inr d"
  shows "map_of d extra = None"
proof -
  from assms(4) obtain template where t: "json_props (m_defaultObject m) = Inr template"
    and p: "insert_props m (own_props obj) template = Inr d"
    by (auto simp: insert_doc_def split: sum.splits)
  from json_props_keys [OF t] assms(3) have "map_of template extra = None"
    by (auto simp: map_of_eq_None_iff)
  with insert_props_undeclared [OF p assms(2)] assms(1) show ?thesis by simp
qed

text \<open>
  Claim C7, at a document whose undeclared property is called \<^verbatim>\<open>constructor\<close>. The
  lookup \<^verbatim>\<open>_scheme[prop]\<close> of line 121 finds \<^verbatim>\<open>Object.prototype.constructor\<close>, which is
  truthy, and line 122 calls its \<^verbatim>\<open>parse\<close>, which is \<^verbatim>\<open>undefined\<close>: \<^verbatim>\<open>insert\<close> throws a
  TypeError and stores nothing, in the non-strict database and in the strict one. With
  the property called \<^verbatim>\<open>extra\<close> the non-strict database stores it unchanged and the
  strict one stores the document without it.
\<close>

theorem insert_inherited_name_type_error:
  "insert_intercepted sample_store loose_db ''people''
       (Obj [(''active'', Num (Fin 1)), (''constructor'', Str ''x'')])
     = (Inl TypeError, loose_db)
   \<and> insert_intercepted sample_store strict_db ''people''
       (Obj [(''active'', Num (Fin 1)), (''constructor'', Str ''x'')])
     = (Inl TypeError, strict_db)
   \<and> insert_intercepted sample_store loose_db ''people''
       (Obj [(''active'', Num (Fin 1)), (''extra'', Str ''x'')])
     = (Inr (Arr [Obj [(''name'', Null), (''active'', Bool True), (''role'', Str ''guest''),
                       (''extra'', Str ''x'')]]),
        loose_db\<lparr>collections := [(''people'', people_collection
           [Arr [Obj [(''name'', Null), (''active'', Bool True), (''role'', Str ''guest''),
                      (''extra'', Str ''x'')]]])]\<rparr>)
   \<and> insert_intercepted sample_store strict_db ''people''
       (Obj [(''active'', Num (Fin 1)), (''extra'', Str ''x'')])
     = (Inr (Arr [Obj [(''name'', Null), (''active'', Bool True), (''role'', Str ''guest'')]]),
        strict_db\<lparr>collections := [(''people'', people_collection
           [Arr [Obj [(''name'', Null), (''active'', Bool True), (''role'', Str ''guest'')]]])]\<rparr>)"
  by (simp add: insert_intercepted_def call_primitive_def strict_db_eq loose_db_eq
      people_model_def people_collection_def sample_store_def doc_defs js_get_def js_set_def
      object_prototype_names_def)

subsection \<open>Bulk update\<close>

text \<open>
  Claim C8, as the code has it. Called with an array, the intercepted \<^verbatim>\<open>update\<close> of a
  model that has its collection does nothing to the array itself: it hands it to the
  saved \<^verbatim>\<open>_update\<close>, Loki's \<^verbatim>\<open>update\<close>, which calls the \<^verbatim>\<open>update\<close> of the collection, the
  intercepting closure, on each element in turn. So the call on an empty array returns
  \<^verbatim>\<open>undefined\<close> and changes nothing, and the call on \<open>doc # docs\<close> is the call on \<open>doc\<close>
  followed, unless that one throws, by the call on \<open>docs\<close> in the state it left. For an
  element that is not an array this means the single update of lines 148-165: when its
  normalization throws (a coercion, or the not-null check), the call on the array throws
  that error and changes nothing, whatever the store is; otherwise the store's primitive
  receives the normalized document with \<^verbatim>\<open>meta\<close> and \<^verbatim>\<open>$loki\<close> attached, not the element as
  it was given.
\<close>

theorem update_array_each_element:
  assumes entry: "js_get (models st) name = Own m"
    and handle: "m_collection m = Some h"
    and coll: "map_of (collections st) h = Some c"
  shows "update_intercepted lk st name (Arr []) = (Inr Undefined, st)
    \<and> update_intercepted lk st name (Arr (doc # docs)) =
        (case update_intercepted lk st name doc of
           (Inl e, st') \<Rightarrow> (Inl e, st')
         | (Inr r, st') \<Rightarrow> update_intercepted lk st' name (Arr docs))
    \<and> ((\<forall>xs. doc \<noteq> Arr xs) \<and> update_doc m name doc = Inl e0 \<longrightarrow>
         update_intercepted lk st name (Arr (doc # docs)) = (Inl e0, st))
    \<and> ((\<forall>xs. doc \<noteq> Arr xs) \<and> update_doc m name doc = Inr toUpdate
          \<and> reserved_field doc ''meta'' = Inr meta \<and> reserved_field doc ''$loki'' = Inr loki \<longrightarrow>
         update_intercepted lk st name (Arr (doc # docs)) =
           (case call_primitive (update_primitive lk) st m
                   (Obj (js_set (js_set toUpdate ''meta'' meta) ''$loki'' loki)) of
              (Inl e, st') \<Rightarrow> (Inl e, st')
            | (Inr r, st') \<Rightarrow> update_intercepted lk st' name (Arr docs)))"
proof -
  have empty: "update_intercepted lk st name (Arr []) = (Inr Undefined, st)"
    using assms by simp
  have array: "update_intercepted lk s name (Arr ds) = loki_update_each lk s name ds"
    if "models s = models st" and "dom (map_of (collections s)) = dom (map_of (collections st))"
    for s ds
  proof -
    from coll have "h \<in> dom (map_of (collections st))" by blast
    with that(2) obtain c' where "map_of (collections s) h = Some c'" by blast
    with entry handle that(1) show ?thesis by simp
  qed
  have step: "update_intercepted lk st name (Arr (doc # docs)) =
        (case update_intercepted lk st name doc of
           (Inl e, st') \<Rightarrow> (Inl e, st')
         | (Inr r, st') \<Rightarrow> update_intercepted lk st' name (Arr docs))"
  proof -
    obtain r s where u: "update_intercepted lk st name doc = (r, s)"
      by (cases "update_intercepted lk st name doc")
    from update_keeps(1) [of lk st name doc] u
    have "models s = models st" "dom (map_of (collections s)) = dom (map_of (collections st))"
      by simp_all
    then have "update_intercepted lk s name (Arr docs) = loki_update_each lk s name docs"
      by (rule array)
    moreover have "update_intercepted lk st name (Arr (doc # docs))
        = loki_update_each lk st name (doc # docs)"
      by (rule array) simp_all
    ultimately show ?thesis using u by (simp split: sum.splits)
  qed
  have single: "update_intercepted lk st name doc = update_single lk st name doc"
    if "\<forall>xs. doc \<noteq> Arr xs"
    using that by (cases doc) simp_all
  have fails: "update_intercepted lk st name (Arr (doc # docs)) = (Inl e0, st)"
    if "\<forall>xs. doc \<noteq> Arr xs" and "update_doc m name doc = Inl e0"
  proof -
    from that(1) have "update_intercepted lk st name doc = update_single lk st name doc"
      by (rule single)
    with that(2) entry have "update_intercepted lk st name doc = (Inl e0, st)"
      by (simp add: update_single_def)
    then show ?thesis by (subst step) simp
  qed
  have passes: "update_intercepted lk st name (Arr (doc # docs)) =
           (case call_primitive (update_primitive lk) st m
                   (Obj (js_set (js_set toUpdate ''meta'' meta) ''$loki'' loki)) of
              (Inl e, st') \<Rightarrow> (Inl e, st')
            | (Inr r, st') \<Rightarrow> update_intercepted lk st' name (Arr docs))"
    if "\<forall>xs. doc \<noteq> Arr xs" and "update_doc m name doc = Inr toUpdate"
      and "reserved_field doc ''meta'' = Inr meta" and "reserved_field doc ''$loki'' = Inr loki"
  proof -
    from that(1) have "update_intercepted lk st name doc = update_single lk st name doc"
      by (rule single)
    with that(2,3,4) entry have "update_intercepted lk st name doc
        = call_primitive (update_primitive lk) st m
            (Obj (js_set (js_set toUpdate ''meta'' meta) ''$loki'' loki))"
      by (simp add: update_single_def)
    then show ?thesis by (subst step) simp
  qed
  from empty step fails passes show ?thesis by blast
qed

theorem update_array_each_element_witness:
  "js_get (models strict_db) ''people'' = Own (people_model Undefined)
   \<and> m_collection (people_model Undefined) = Some ''people''
   \<and> map_of (collections strict_db) ''people'' = Some (people_collection [])
   \<and> update_doc (people_model Undefined) ''people'' (Obj [(''name'', Str ''x'')])
       = Inl (NotNullConstraint ''active'' ''people'')
   \<and> (\<forall>lk. update_intercepted lk strict_db ''people'' (Arr []) = (Inr Undefined, strict_db)
         \<and> update_intercepted lk strict_db ''people''
              (Arr [Obj [(''name'', Str ''x'')], Obj [(''active'', Bool True), (''role'', Str ''admin'')]])
             = (Inl (NotNullConstraint ''active'' ''people''), strict_db))
   \<and> update_doc (people_model Undefined) ''people''
         (Obj [(''active'', Num (Fin 1)), (''role'', Str ''admin''), (''$loki'', Num (Fin 7))])
       = Inr [(''active'', Bool True), (''role'', Str ''admin'')]
   \<and> reserved_field (Obj [(''active'', Num (Fin 1)), (''role'', Str ''admin''), (''$loki'', Num (Fin 7))])
         ''meta'' = Inr Undefined
   \<and> reserved_field (Obj [(''active'', Num (Fin 1)), (''role'', Str ''admin''), (''$loki'', Num (Fin 7))])
         ''$loki'' = Inr (Num (Fin 7))
   \<and> update_intercepted sample_store strict_db ''people''
         (Arr [Obj [(''active'', Num (Fin 1)), (''role'', Str ''admin''), (''$loki'', Num (Fin 7))],
               Obj [(''name'', Str ''x'')]])
       = (Inl (NotNullConstraint ''active'' ''people''),
          \<lparr>models = [(''people'', people_model Undefined)],
           collections = [(''people'', people_collection
             [Obj [(''active'', Bool True), (''role'', Str ''admin''), (''meta'', Undefined),
                   (''$loki'', Num (Fin 7))]])]\<rparr>)"
proof -
  let ?bad = "Obj [(''name'', Str ''x'')]"
  let ?good = "Obj [(''active'', Num (Fin 1)), (''role'', Str ''admin''), (''$loki'', Num (Fin 7))]"
  let ?written = "\<lparr>models = [(''people'', people_model Undefined)],
           collections = [(''people'', people_collection
             [Obj [(''active'', Bool True), (''role'', Str ''admin''), (''meta'', Undefined),
                   (''$loki'', Num (Fin 7))]])]\<rparr>"
  have a: "js_get (models strict_db) ''people'' = Own (people_model Undefined)"
    by (simp add: strict_db_eq js_get_def)
  have b: "m_collection (people_model Undefined) = Some ''people''"
    by (simp add: people_model_def)
  have c: "map_of (collections strict_db) ''people'' = Some (people_collection [])"
    by (simp add: strict_db_eq)
  have d: "update_doc (people_model Undefined) ''people'' ?bad
       = Inl (NotNullConstraint ''active'' ''people'')"
    by (simp add: people_model_def doc_defs js_get_def js_set_def object_prototype_names_def)
  have e: "\<forall>xs. ?bad \<noteq> Arr xs"
    by simp
  note t = update_array_each_element [OF a b c]
  have first: "update_intercepted lk strict_db ''people'' (Arr []) = (Inr Undefined, strict_db)
         \<and> update_intercepted lk strict_db ''people''
              (Arr [?bad, Obj [(''active'', Bool True), (''role'', Str ''admin'')]])
             = (Inl (NotNullConstraint ''active'' ''people''), strict_db)" for lk
    using t [where lk = lk and doc = ?bad
        and docs = "[Obj [(''active'', Bool True), (''role'', Str ''admin'')]]"
        and ?e0.0 = "NotNullConstraint ''active'' ''people''"] d e
    by blast
  have g: "\<forall>xs. ?good \<noteq> Arr xs"
    by simp
  have u: "update_doc (people_model Undefined) ''people'' ?good
       = Inr [(''active'', Bool True), (''role'', Str ''admin'')]"
    by (simp add: people_model_def doc_defs js_get_def js_set_def object_prototype_names_def)
  have m: "reserved_field ?good ''meta'' = Inr Undefined"
    by (simp add: reserved_field_def js_read_def)
  have l: "reserved_field ?good ''$loki'' = Inr (Num (Fin 7))"
    by (simp add: reserved_field_def js_read_def)
  have p: "call_primitive (update_primitive sample_store) strict_db (people_model Undefined)
             (Obj (js_set (js_set [(''active'', Bool True), (''role'', Str ''admin'')]
                      ''meta'' Undefined) ''$loki'' (Num (Fin 7))))
           = (Inr (Obj [(''active'', Bool True), (''role'', Str ''admin''), (''meta'', Undefined),
                        (''$loki'', Num (Fin 7))]), ?written)"
    by (simp add: call_primitive_def strict_db_eq people_model_def people_collection_def
        sample_store_def js_set_def)
  have a': "js_get (models ?written) ''people'' = Own (people_model Undefined)"
    by (simp add: js_get_def)
  have c': "map_of (collections ?written) ''people'' = Some (people_collection
             [Obj [(''active'', Bool True), (''role'', Str ''admin''), (''meta'', Undefined),
                   (''$loki'', Num (Fin 7))]])"
    by simp
  have rest: "update_intercepted sample_store ?written ''people'' (Arr [?bad])
       = (Inl (NotNullConstraint ''active'' ''people''), ?written)"
    using update_array_each_element [OF a' b c', where lk = sample_store and doc = ?bad
        and docs = "[]" and ?e0.0 = "NotNullConstraint ''active'' ''people''"] d e
    by blast
  from t [where lk = sample_store and doc = ?good and docs = "[?bad]"
      and toUpdate = "[(''active'', Bool True), (''role'', Str ''admin'')]"
      and meta = Undefined and loki = "Num (Fin 7)"] g u m l
  have "update_intercepted sample_store strict_db ''people'' (Arr [?good, ?bad])
      = (case call_primitive (update_primitive sample_store) strict_db (people_model Undefined)
                (Obj (js_set (js_set [(''active'', Bool True), (''role'', Str ''admin'')]
                      ''meta'' Undefined) ''$loki'' (Num (Fin 7)))) of
           (Inl e, st') \<Rightarrow> (Inl e, st')
         | (Inr r, st') \<Rightarrow> update_intercepted sample_store st' ''people'' (Arr [?bad]))"
    by blast
  also have "\<dots> = (Inl (NotNullConstraint ''active'' ''people''), ?written)"
    by (simp only: p prod.case sum.case rest)
  finally have second: "update_intercepted sample_store strict_db ''people'' (Arr [?good, ?bad])
      = (Inl (NotNullConstraint ''active'' ''people''), ?written)" .
  from a b c d first u m l second show ?thesis by blast
qed

text \<open>
  Claim C8 as stated fails: the elements of the array are validated and normalized. In
  the strict sample database an array with one document that lacks the not-null property
  \<^verbatim>\<open>active\<close> throws the not-null error and nothing is written; an array with one complete
  document is written with \<^verbatim>\<open>active\<close> coerced to a boolean and the undeclared \<^verbatim>\<open>shoe\<close>
  dropped.
\<close>

theorem update_array_validates_elements:
  "update_intercepted sample_store strict_db ''people'' (Arr [Obj [(''name'', Str ''x'')]])
     = (Inl (NotNullConstraint ''active'' ''people''), strict_db)
   \<and> update_intercepted sample_store strict_db ''people''
       (Arr [Obj [(''active'', Num (Fin 1)), (''role'', Str ''admin''), (''shoe'', Num (Fin 42)),
                  (''$loki'', Num (Fin 1))]])
     = (Inr Undefined,
        \<lparr>models = [(''people'', people_model Undefined)],
         collections = [(''people'', people_collection
           [Obj [(''active'', Bool True), (''role'', Str ''admin''), (''meta'', Undefined),
                 (''$loki'', Num (Fin 1))]])]\<rparr>)"
  by (simp add: strict_db_eq update_single_def call_primitive_def people_model_def
      people_collection_def sample_store_def doc_defs js_get_def js_set_def js_read_def
      object_prototype_names_def)

subsection \<open>Single update against insert\<close>










text \<open>A model made by \<^verbatim>\<open>define\<close> meets the first two conditions of the agreement below.\<close>

lemma define_made_entry:
  assumes "define_model lk st name definition options = (Inr h, st')"
  shows "\<exists>m. js_get (models st') name = Own m
           \<and> map fst (m_scheme m) = map fst (m_defaultObject m)
           \<and> ''__proto__'' \<notin> fst ` set (m_defaultObject m)"
proof -
  let ?init = "\<lparr>m_collection = None, m_unique = [], m_scheme = [], m_defaultObject = [],
             m_nonStrict = js_read (options_object options) ''allowExtraProperties''\<rparr>"
  let ?entry = "(define_props definition ?init)\<lparr>m_collection := Some name\<rparr>"
  have "map fst (m_scheme (define_props definition ?init))
          = map fst (m_defaultObject (define_props definition ?init))"
    using define_props_keys [of ?init "definition"] by simp
  moreover have "''__proto__'' \<notin> fst ` set (m_defaultObject (define_props definition ?init))"
    using define_props_no_proto [of ?init "definition"] by simp
  ultimately have "map fst (m_scheme ?entry) = map fst (m_defaultObject ?entry)
           \<and> ''__proto__'' \<notin> fst ` set (m_defaultObject ?entry)"
    by simp
  with define_success_entry [OF assms] show ?thesis by blast
qed




subsection \<open>The built-in coercions\<close>

text \<open>
  Applying a coercion to its own result. \<open>ANY\<close>, \<open>STRING\<close>, \<open>BOOLEAN\<close> and \<open>FLOAT\<close>
  return that result again.
\<close>

lemma any_twice: "ANY v = Inr w \<Longrightarrow> ANY w = Inr w"
  by (simp add: ANY_def)

lemma boolean_twice: "BOOLEAN v = Inr w \<Longrightarrow> BOOLEAN w = Inr w"
  by (auto simp: BOOLEAN_def nullish_def js_truthy_def split: if_splits)

lemma string_twice: "STRING bi v = Inr w \<Longrightarrow> STRING bi w = Inr w"
  by (cases v) (auto simp: STRING_def toString_method_def nullish_def split: if_splits sum.splits)

lemma parseFloat_number_twice: "parseFloat_number (parseFloat_number n) = parseFloat_number n"
  by (cases n) (simp_all add: parseFloat_number_def)

lemma float_twice: "FLOAT bi v = Inr w \<Longrightarrow> FLOAT bi w = Inr w"
  by (auto simp: FLOAT_def to_number_def nullish_def parseFloat_number_twice split: if_splits sum.splits)

text \<open>
  \<^verbatim>\<open>parseInt\<close> returns \<^verbatim>\<open>NaN\<close>, a zero or a whole number below \<open>10\<^sup>2\<^sup>1\<close> in magnitude,
  and reads each of them back as itself, except that it reads \<open>-0\<close> back as \<open>+0\<close>.
\<close>

lemma digit_value_range: "1 \<le> digit_value d \<and> digit_value d \<le> 9 \<and> digit_value d = of_int \<lfloor>digit_value d\<rfloor>"
  by (cases d) simp_all

lemma parseInt_whole:
  assumes "r \<noteq> 0" and "1 \<le> i" and "of_int i < (10::rat) ^ 21"
  shows "parseInt_number bi (Fin (sgn r * of_int i)) = Fin (sgn r * of_int i)"
proof -
  let ?q = "sgn r * of_int i :: rat"
  from assms(2) have pos: "(0::rat) < of_int i" by simp
  from assms(1) have "\<bar>sgn r\<bar> = 1" by (simp add: abs_sgn_eq)
  with pos have abs: "\<bar>?q\<bar> = of_int i" by (simp add: abs_mult)
  from pos have "sgn (of_int i :: rat) = 1" by (rule sgn_pos)
  then have sgn: "sgn ?q = sgn r" by (simp add: sgn_mult)
  from assms(1) have "sgn r \<noteq> 0" by (simp add: sgn_eq_0_iff)
  with pos have nz: "?q \<noteq> 0" by simp
  have low: "(4722366482869645::rat) / 2 ^ 72 \<le> of_int i"
  proof -
    have "(4722366482869645::rat) / 2 ^ 72 \<le> 1" by simp
    also from assms(2) have "(1::rat) \<le> of_int i" by simp
    finally show ?thesis .
  qed
  from assms(2) have fl: "\<lfloor>(of_int i :: rat)\<rfloor> \<noteq> 0" by simp
  have "parseInt_number bi (Fin ?q) =
          (if ?q = 0 then Fin 0
           else if 4722366482869645 / 2 ^ 72 \<le> \<bar>?q\<bar> \<and> \<bar>?q\<bar> < 10 ^ 21 then
             (if \<lfloor>\<bar>?q\<bar>\<rfloor> = 0 then (if ?q < 0 then NegZero else Fin 0)
              else Fin (sgn ?q * of_int \<lfloor>\<bar>?q\<bar>\<rfloor>))
           else Fin (sgn ?q * digit_value (exponent_digit bi ?q)))"
    by (simp only: parseInt_number_def jsnum.case)
  also have "\<dots> = Fin (sgn r * of_int i)"
    unfolding abs sgn using nz low assms(3) fl by simp
  finally show ?thesis .
qed

lemma parseInt_number_twice:
  "parseInt_number bi (parseInt_number bi n) = parseInt_number bi n
   \<or> (parseInt_number bi n = NegZero \<and> parseInt_number bi (parseInt_number bi n) = Fin 0)"
proof (cases n)
  case (Fin r)
  show ?thesis
  proof (cases "r = 0")
    case True
    with Fin show ?thesis by (simp add: parseInt_number_def)
  next
    case nz: False
    show ?thesis
    proof (cases "4722366482869645 / 2 ^ 72 \<le> \<bar>r\<bar> \<and> \<bar>r\<bar> < 10 ^ 21")
      case inr: True
      show ?thesis
      proof (cases "\<lfloor>\<bar>r\<bar>\<rfloor> = 0")
        case True
        have "parseInt_number bi n = (if r < 0 then NegZero else Fin 0)"
          by (simp only: Fin parseInt_number_def jsnum.case nz inr True if_False if_True) simp_all
        then show ?thesis by (simp add: parseInt_number_def)
      next
        case False
        have "0 \<le> \<lfloor>\<bar>r\<bar>\<rfloor>" by simp
        with False have one: "1 \<le> \<lfloor>\<bar>r\<bar>\<rfloor>" by linarith
        have "of_int \<lfloor>\<bar>r\<bar>\<rfloor> \<le> \<bar>r\<bar>" by (rule of_int_floor_le)
        with inr have small: "of_int \<lfloor>\<bar>r\<bar>\<rfloor> < (10::rat) ^ 21" by linarith
        have m: "parseInt_number bi n = Fin (sgn r * of_int \<lfloor>\<bar>r\<bar>\<rfloor>)"
          by (simp only: Fin parseInt_number_def jsnum.case nz inr False if_False if_True) simp_all
        from parseInt_whole [OF nz one small, of bi] show ?thesis
          by (simp only: m) simp
      qed
    next
      case outr: False
      let ?d = "exponent_digit bi r"
      from digit_value_range [of ?d] have one: "1 \<le> \<lfloor>digit_value ?d\<rfloor>"
        and whole: "digit_value ?d = of_int \<lfloor>digit_value ?d\<rfloor>"
        by simp_all
      have "(9::rat) < 10 ^ 21" by simp
      with digit_value_range [of ?d] have "digit_value ?d < 10 ^ 21" by linarith
      with whole have small: "of_int \<lfloor>digit_value ?d\<rfloor> < (10::rat) ^ 21" by simp
      have "parseInt_number bi n = Fin (sgn r * digit_value ?d)"
        by (simp only: Fin parseInt_number_def jsnum.case nz outr if_False)
      with whole have m: "parseInt_number bi n = Fin (sgn r * of_int \<lfloor>digit_value ?d\<rfloor>)"
        by simp
      from parseInt_whole [OF nz one small, of bi] show ?thesis
        by (simp only: m) simp
    qed
  qed
qed (simp_all add: parseInt_number_def)

lemma parseInt_minus_half: "parseInt_number bi (Fin (- (1 / 2))) = NegZero"
proof -
  have a: "(4722366482869645::rat) / 2 ^ 72 \<le> \<bar>- (1 / 2)\<bar> \<and> \<bar>- (1 / 2) :: rat\<bar> < 10 ^ 21"
    by simp
  have b: "\<lfloor>\<bar>- (1 / 2) :: rat\<bar>\<rfloor> = 0"
    by (simp add: floor_eq_iff)
  have c: "(- (1 / 2) :: rat) \<noteq> 0" "(- (1 / 2) :: rat) < 0"
    by simp_all
  show ?thesis
    by (simp only: parseInt_number_def jsnum.case a b c if_True if_False) simp_all
qed

lemma parseInt_minus_three_halves: "parseInt_number bi (Fin (- (3 / 2))) = Fin (- 1)"
proof -
  have a: "(4722366482869645::rat) / 2 ^ 72 \<le> \<bar>- (3 / 2)\<bar> \<and> \<bar>- (3 / 2) :: rat\<bar> < 10 ^ 21"
    by simp
  have b: "\<lfloor>\<bar>- (3 / 2) :: rat\<bar>\<rfloor> = 1"
    by (simp add: floor_eq_iff)
  have c: "(- (3 / 2) :: rat) \<noteq> 0" "sgn (- (3 / 2) :: rat) = - 1"
    by simp_all
  show ?thesis
    by (simp only: parseInt_number_def jsnum.case a b c if_True if_False) simp_all
qed

lemma integer_twice:
  assumes "INTEGER bi v = Inr w"
  shows "\<exists>w'. INTEGER bi w = Inr w' \<and> same_value w' w"
proof (cases "nullish v")
  case True
  with assms show ?thesis by (auto simp: INTEGER_def same_value_def nullish_def)
next
  case False
  with assms obtain n where w: "w = Num (parseInt_number bi n)"
    by (auto simp: INTEGER_def split: sum.splits)
  have "INTEGER bi w = Inr (Num (parseInt_number bi (parseInt_number bi n)))"
    by (simp add: w INTEGER_def to_number_def nullish_def)
  moreover from parseInt_number_twice [of bi n]
  have "same_value (Num (parseInt_number bi (parseInt_number bi n))) w"
    by (auto simp: w same_value_def)
  ultimately show ?thesis by blast
qed

text \<open>
  Claim C3, as the code has it. For each of \<open>ANY\<close>, \<open>INTEGER\<close>, \<open>FLOAT\<close>, \<open>STRING\<close> and
  \<open>BOOLEAN\<close>, and every value of the type \<open>jsval\<close> (a primitive, a date, or an array or
  plain object of such values, with no function among its properties) on which the
  coercion returns, the coercion returns on its own result as well, and what it returns
  is that result: exactly for \<open>ANY\<close>, \<open>FLOAT\<close>, \<open>STRING\<close> and \<open>BOOLEAN\<close>, and up to the
  sign of a zero for \<open>INTEGER\<close>. Results are compared as values, \<^verbatim>\<open>NaN\<close> being the same
  value as \<^verbatim>\<open>NaN\<close>. Whatever the input was, the coercion returns again each result it can
  have: \<^verbatim>\<open>null\<close>, for \<open>INTEGER\<close> a number that \<^verbatim>\<open>parseInt\<close> returns (up to the sign of a
  zero), for \<open>FLOAT\<close> a number that \<^verbatim>\<open>parseFloat\<close> returns, for \<open>STRING\<close> a string, for
  \<open>BOOLEAN\<close> a boolean. \<open>INTEGER\<close> and \<open>FLOAT\<close> return \<^verbatim>\<open>NaN\<close> for \<^verbatim>\<open>NaN\<close>, and \<open>INTEGER\<close> turns
  \<open>-0.5\<close> into \<open>-0\<close> and \<open>-0\<close> into \<open>+0\<close>.
\<close>

theorem coercion_twice_same_value:
  "(ANY v = Inr w \<longrightarrow> ANY w = Inr w)
   \<and> (INTEGER bi v = Inr w \<longrightarrow> (\<exists>w'. INTEGER bi w = Inr w' \<and> same_value w' w))
   \<and> (FLOAT bi v = Inr w \<longrightarrow> FLOAT bi w = Inr w)
   \<and> (STRING bi v = Inr w \<longrightarrow> STRING bi w = Inr w)
   \<and> (BOOLEAN v = Inr w \<longrightarrow> BOOLEAN w = Inr w)
   \<and> (\<exists>w'. INTEGER bi (Num (parseInt_number bi n)) = Inr w'
          \<and> same_value w' (Num (parseInt_number bi n)))
   \<and> FLOAT bi (Num (parseFloat_number n)) = Inr (Num (parseFloat_number n))
   \<and> STRING bi (Str s) = Inr (Str s)
   \<and> BOOLEAN (Bool b) = Inr (Bool b)
   \<and> INTEGER bi Null = Inr Null \<and> FLOAT bi Null = Inr Null
   \<and> STRING bi Null = Inr Null \<and> BOOLEAN Null = Inr Null
   \<and> INTEGER bi (Num NaN) = Inr (Num NaN) \<and> FLOAT bi (Num NaN) = Inr (Num NaN)
   \<and> INTEGER bi (Num (Fin (- (1 / 2)))) = Inr (Num NegZero)
   \<and> INTEGER bi (Num NegZero) = Inr (Num (Fin 0))"
proof (intro conjI impI)
  assume "ANY v = Inr w"
  then show "ANY w = Inr w" by (rule any_twice)
next
  assume "INTEGER bi v = Inr w"
  then show "\<exists>w'. INTEGER bi w = Inr w' \<and> same_value w' w" by (rule integer_twice)
next
  assume "FLOAT bi v = Inr w"
  then show "FLOAT bi w = Inr w" by (rule float_twice)
next
  assume "STRING bi v = Inr w"
  then show "STRING bi w = Inr w" by (rule string_twice)
next
  assume "BOOLEAN v = Inr w"
  then show "BOOLEAN w = Inr w" by (rule boolean_twice)
next
  have "INTEGER bi (Num n) = Inr (Num (parseInt_number bi n))"
    by (simp add: INTEGER_def to_number_def nullish_def)
  then show "\<exists>w'. INTEGER bi (Num (parseInt_number bi n)) = Inr w'
          \<and> same_value w' (Num (parseInt_number bi n))"
    by (rule integer_twice)
next
  have "FLOAT bi (Num n) = Inr (Num (parseFloat_number n))"
    by (simp add: FLOAT_def to_number_def nullish_def)
  then show "FLOAT bi (Num (parseFloat_number n)) = Inr (Num (parseFloat_number n))"
    by (rule float_twice)
next
  show "STRING bi (Str s) = Inr (Str s)"
    by (simp add: STRING_def toString_method_def nullish_def)
next
  show "BOOLEAN (Bool b) = Inr (Bool b)"
    by (simp add: BOOLEAN_def js_truthy_def nullish_def)
next
  show "INTEGER bi Null = Inr Null" by (simp add: INTEGER_def nullish_def)
next
  show "FLOAT bi Null = Inr Null" by (simp add: FLOAT_def nullish_def)
next
  show "STRING bi Null = Inr Null" by (simp add: STRING_def nullish_def)
next
  show "BOOLEAN Null = Inr Null" by (simp add: BOOLEAN_def nullish_def)
next
  show "INTEGER bi (Num NaN) = Inr (Num NaN)"
    by (simp add: INTEGER_def to_number_def nullish_def parseInt_number_def)
next
  show "FLOAT bi (Num NaN) = Inr (Num NaN)"
    by (simp add: FLOAT_def to_number_def nullish_def parseFloat_number_def)
next
  show "INTEGER bi (Num (Fin (- (1 / 2)))) = Inr (Num NegZero)"
    by (simp add: INTEGER_def to_number_def nullish_def parseInt_minus_half)
next
  show "INTEGER bi (Num NegZero) = Inr (Num (Fin 0))"
    by (simp add: INTEGER_def to_number_def nullish_def parseInt_number_def)
qed

theorem coercion_twice_same_value_witness:
  "\<forall>bi. INTEGER bi (Num (Fin (- (3 / 2)))) = Inr (Num (Fin (- 1)))
     \<and> (\<exists>w'. INTEGER bi (Num (Fin (- 1))) = Inr w' \<and> same_value w' (Num (Fin (- 1))))
     \<and> FLOAT bi (Num NegZero) = Inr (Num (Fin 0)) \<and> FLOAT bi (Num (Fin 0)) = Inr (Num (Fin 0))
     \<and> STRING bi (Bool True) = Inr (Str ''true'') \<and> STRING bi (Str ''true'') = Inr (Str ''true'')
     \<and> BOOLEAN (Str ''no'') = Inr (Bool True) \<and> BOOLEAN (Bool True) = Inr (Bool True)
     \<and> ANY (Num NaN) = Inr (Num NaN)"
proof
  fix bi
  have i: "INTEGER bi (Num (Fin (- (3 / 2)))) = Inr (Num (Fin (- 1)))"
    by (simp add: INTEGER_def to_number_def nullish_def parseInt_minus_three_halves)
  have f: "FLOAT bi (Num NegZero) = Inr (Num (Fin 0))"
    by (simp add: FLOAT_def to_number_def parseFloat_number_def nullish_def)
  have s: "STRING bi (Bool True) = Inr (Str ''true'')"
    by (simp add: STRING_def toString_method_def nullish_def)
  have b: "BOOLEAN (Str ''no'') = Inr (Bool True)"
    by (simp add: BOOLEAN_def js_truthy_def nullish_def)
  have a: "ANY (Num NaN) = Inr (Num NaN)"
    by (simp add: ANY_def)
  note t = coercion_twice_same_value
  from t [of "Num (Fin (- (3 / 2)))" "Num (Fin (- 1))" bi NaN "[]" True] i
  have i2: "\<exists>w'. INTEGER bi (Num (Fin (- 1))) = Inr w' \<and> same_value w' (Num (Fin (- 1)))"
    by (elim conjE) (erule mp)
  from t [of "Num NegZero" "Num (Fin 0)" bi NaN "[]" True] f
  have f2: "FLOAT bi (Num (Fin 0)) = Inr (Num (Fin 0))"
    by (elim conjE) (erule mp)
  from t [of "Bool True" "Str ''true''" bi NaN "[]" True] s
  have s2: "STRING bi (Str ''true'') = Inr (Str ''true'')"
    by (elim conjE) (erule mp)
  from t [of "Str ''no''" "Bool True" bi NaN "[]" True] b
  have b2: "BOOLEAN (Bool True) = Inr (Bool True)"
    by (elim conjE) (erule mp)
  from t [of "Num NaN" "Num NaN" bi NaN "[]" True] a
  have a2: "ANY (Num NaN) = Inr (Num NaN)"
    by (elim conjE) (erule mp)
  from i i2 f f2 s s2 b b2 a2
  show "INTEGER bi (Num (Fin (- (3 / 2)))) = Inr (Num (Fin (- 1)))
     \<and> (\<exists>w'. INTEGER bi (Num (Fin (- 1))) = Inr w' \<and> same_value w' (Num (Fin (- 1))))
     \<and> FLOAT bi (Num NegZero) = Inr (Num (Fin 0)) \<and> FLOAT bi (Num (Fin 0)) = Inr (Num (Fin 0))
     \<and> STRING bi (Bool True) = Inr (Str ''true'') \<and> STRING bi (Str ''true'') = Inr (Str ''true'')
     \<and> BOOLEAN (Str ''no'') = Inr (Bool True) \<and> BOOLEAN (Bool True) = Inr (Bool True)
     \<and> ANY (Num NaN) = Inr (Num NaN)"
    by (intro conjI)
qed

text \<open>
  Claim C3 as stated fails: its formula compares with \<^verbatim>\<open>==\<close>, \<open>ANY\<close> returns \<^verbatim>\<open>NaN\<close> for
  \<^verbatim>\<open>NaN\<close>, and \<^verbatim>\<open>NaN == NaN\<close> is false.
\<close>

theorem coercion_twice_not_equal:
  "ANY (Num NaN) = Inr (Num NaN) \<and> \<not> number_equals NaN NaN"
  by (simp add: ANY_def number_equals_def)

text \<open>\<open>INTEGER\<close> and \<open>FLOAT\<close> throw on a symbol, \<open>DATE\<close> on a symbol and on a BigInt.\<close>

lemma integer_throws_on_symbol: "INTEGER bi (Symbol d) = Inl TypeError"
  by (simp add: INTEGER_def to_number_def nullish_def)

lemma float_throws_on_symbol: "FLOAT bi (Symbol d) = Inl TypeError"
  by (simp add: FLOAT_def to_number_def nullish_def)

lemma date_throws_on_symbol_and_bigint:
  "DATE bi (Symbol d) = Inl TypeError" "DATE bi (BigInt i) = Inl TypeError"
  by (simp_all add: DATE_def new_Date_def nullish_def)

text \<open>
  Claim C4, as the code has it. Each coercion is a function of its argument (and of the
  language's conversions) alone. Given \<^verbatim>\<open>null\<close> every one returns \<^verbatim>\<open>null\<close>; given
  \<^verbatim>\<open>undefined\<close>, \<open>INTEGER\<close>, \<open>FLOAT\<close>, \<open>STRING\<close>, \<open>BOOLEAN\<close> and \<open>DATE\<close> return \<^verbatim>\<open>null\<close> and
  \<open>ANY\<close>, the identity, returns \<^verbatim>\<open>undefined\<close>. On \<^verbatim>\<open>null\<close>, \<^verbatim>\<open>undefined\<close>, booleans,
  numbers, strings and dates every one returns a value and does not throw. On a symbol
  \<open>ANY\<close>, \<open>STRING\<close> and \<open>BOOLEAN\<close> return a value and \<open>INTEGER\<close>, \<open>FLOAT\<close> and \<open>DATE\<close> throw a
  TypeError; on a BigInt \<open>ANY\<close>, \<open>INTEGER\<close>, \<open>FLOAT\<close>, \<open>STRING\<close> and \<open>BOOLEAN\<close> return a
  value and \<open>DATE\<close> throws a TypeError.
\<close>

theorem coercions_on_null_and_primitives:
  "ANY Null = Inr Null \<and> ANY Undefined = Inr Undefined
   \<and> (nullish v \<longrightarrow>
        INTEGER bi v = Inr Null \<and> FLOAT bi v = Inr Null \<and> STRING bi v = Inr Null
        \<and> BOOLEAN v = Inr Null \<and> DATE bi v = Inr Null)
   \<and> (plain_scalar v \<longrightarrow>
        (\<exists>w. ANY v = Inr w) \<and> (\<exists>w. INTEGER bi v = Inr w) \<and> (\<exists>w. FLOAT bi v = Inr w)
        \<and> (\<exists>w. STRING bi v = Inr w) \<and> (\<exists>w. BOOLEAN v = Inr w) \<and> (\<exists>w. DATE bi v = Inr w))
   \<and> ANY (Symbol d) = Inr (Symbol d)
   \<and> STRING bi (Symbol d) = Inr (Str (''Symbol('' @ d @ '')''))
   \<and> BOOLEAN (Symbol d) = Inr (Bool True)
   \<and> INTEGER bi (Symbol d) = Inl TypeError
   \<and> FLOAT bi (Symbol d) = Inl TypeError
   \<and> DATE bi (Symbol d) = Inl TypeError
   \<and> ANY (BigInt i) = Inr (BigInt i)
   \<and> INTEGER bi (BigInt i) = Inr (Num (parseInt_number bi (bigint_to_number bi i)))
   \<and> FLOAT bi (BigInt i) = Inr (Num (parseFloat_number (bigint_to_number bi i)))
   \<and> STRING bi (BigInt i) = Inr (Str (show_int i))
   \<and> BOOLEAN (BigInt i) = Inr (Bool (i \<noteq> 0))
   \<and> DATE bi (BigInt i) = Inl TypeError"
proof -
  have n: "INTEGER bi v = Inr Null \<and> FLOAT bi v = Inr Null \<and> STRING bi v = Inr Null
        \<and> BOOLEAN v = Inr Null \<and> DATE bi v = Inr Null" if "nullish v"
    using that by (simp add: INTEGER_def FLOAT_def STRING_def BOOLEAN_def DATE_def)
  have t: "(\<exists>w. ANY v = Inr w) \<and> (\<exists>w. INTEGER bi v = Inr w) \<and> (\<exists>w. FLOAT bi v = Inr w)
        \<and> (\<exists>w. STRING bi v = Inr w) \<and> (\<exists>w. BOOLEAN v = Inr w) \<and> (\<exists>w. DATE bi v = Inr w)"
    if "plain_scalar v"
    using that
    by (cases v)
      (simp_all add: plain_scalar_def ANY_def INTEGER_def FLOAT_def STRING_def BOOLEAN_def DATE_def
        to_number_def toString_method_def new_Date_def nullish_def)
  have s: "ANY (Symbol d) = Inr (Symbol d)"
    "STRING bi (Symbol d) = Inr (Str (''Symbol('' @ d @ '')''))"
    "BOOLEAN (Symbol d) = Inr (Bool True)"
    by (simp_all add: ANY_def STRING_def toString_method_def BOOLEAN_def js_truthy_def nullish_def)
  have b: "ANY (BigInt i) = Inr (BigInt i)"
    "INTEGER bi (BigInt i) = Inr (Num (parseInt_number bi (bigint_to_number bi i)))"
    "FLOAT bi (BigInt i) = Inr (Num (parseFloat_number (bigint_to_number bi i)))"
    "STRING bi (BigInt i) = Inr (Str (show_int i))"
    "BOOLEAN (BigInt i) = Inr (Bool (i \<noteq> 0))"
    by (simp_all add: ANY_def INTEGER_def FLOAT_def STRING_def toString_method_def BOOLEAN_def
        to_number_def js_truthy_def nullish_def)
  have a: "ANY Null = Inr Null" "ANY Undefined = Inr Undefined"
    by (simp_all add: ANY_def)
  from n t have i: "nullish v \<longrightarrow>
        INTEGER bi v = Inr Null \<and> FLOAT bi v = Inr Null \<and> STRING bi v = Inr Null
        \<and> BOOLEAN v = Inr Null \<and> DATE bi v = Inr Null"
    and j: "plain_scalar v \<longrightarrow>
        (\<exists>w. ANY v = Inr w) \<and> (\<exists>w. INTEGER bi v = Inr w) \<and> (\<exists>w. FLOAT bi v = Inr w)
        \<and> (\<exists>w. STRING bi v = Inr w) \<and> (\<exists>w. BOOLEAN v = Inr w) \<and> (\<exists>w. DATE bi v = Inr w)"
    by blast+
  from a i j s b integer_throws_on_symbol [of bi d] float_throws_on_symbol [of bi d]
    date_throws_on_symbol_and_bigint(1) [of bi d] date_throws_on_symbol_and_bigint(2) [of bi i]
  show ?thesis by (intro conjI)
qed

theorem coercions_on_null_and_primitives_witness:
  "\<forall>bi. nullish Undefined \<and> plain_scalar (Str ''12'')
     \<and> INTEGER bi Undefined = Inr Null \<and> FLOAT bi Undefined = Inr Null
     \<and> STRING bi Undefined = Inr Null \<and> BOOLEAN Undefined = Inr Null
     \<and> DATE bi Undefined = Inr Null
     \<and> (\<exists>w. INTEGER bi (Str ''12'') = Inr w) \<and> (\<exists>w. DATE bi (Str ''12'') = Inr w)"
proof
  fix bi
  have a: "nullish Undefined" by (simp add: nullish_def)
  have b: "plain_scalar (Str ''12'')" by (simp add: plain_scalar_def)
  note t = coercions_on_null_and_primitives
  from t [of Undefined bi "[]" 0] a
  have n: "INTEGER bi Undefined = Inr Null \<and> FLOAT bi Undefined = Inr Null
     \<and> STRING bi Undefined = Inr Null \<and> BOOLEAN Undefined = Inr Null
     \<and> DATE bi Undefined = Inr Null"
    by (elim conjE) (erule mp)
  from t [of "Str ''12''" bi "[]" 0] b
  have s: "(\<exists>w. ANY (Str ''12'') = Inr w) \<and> (\<exists>w. INTEGER bi (Str ''12'') = Inr w)
        \<and> (\<exists>w. FLOAT bi (Str ''12'') = Inr w) \<and> (\<exists>w. STRING bi (Str ''12'') = Inr w)
        \<and> (\<exists>w. BOOLEAN (Str ''12'') = Inr w) \<and> (\<exists>w. DATE bi (Str ''12'') = Inr w)"
    by (elim conjE) (erule mp)
  from a b n s
  show "nullish Undefined \<and> plain_scalar (Str ''12'')
     \<and> INTEGER bi Undefined = Inr Null \<and> FLOAT bi Undefined = Inr Null
     \<and> STRING bi Undefined = Inr Null \<and> BOOLEAN Undefined = Inr Null
     \<and> DATE bi Undefined = Inr Null
     \<and> (\<exists>w. INTEGER bi (Str ''12'') = Inr w) \<and> (\<exists>w. DATE bi (Str ''12'') = Inr w)"
    by blast
qed

text \<open>Claim C4 as stated fails for \<open>ANY\<close>: of \<^verbatim>\<open>undefined\<close> it returns \<^verbatim>\<open>undefined\<close>, not \<^verbatim>\<open>null\<close>.\<close>

theorem any_keeps_undefined: "ANY Undefined = Inr Undefined \<and> ANY Undefined \<noteq> Inr Null"
  by (simp add: ANY_def)

end
